theory Spec2Isabelle
  imports Main "HOL-Library.Word"
begin

section \<open>Go values used by the Consul source\<close>

text \<open>
  Fixed-width integers are machine words: a conversion such as \<open>int8(number)\<close> keeps the
  low bits (\<open>ucast\<close>); \<open>sint\<close> reads a word as a signed and \<open>unat\<close> as an unsigned
  number. The width of Go's \<open>int\<close> and \<open>uint\<close> depends on the platform and is the type
  parameter \<open>'i\<close>. A \<open>time.Duration\<close> is an \<open>int64\<close> count of nanoseconds. Floating
  point numbers are carried as their IEEE-754 bit patterns: the source only passes them
  through, and the one conversion it applies, \<open>float32(number)\<close>, is a parameter of the
  model. A \<open>time.Time\<close> is the type parameter \<open>'t\<close>.
\<close>

type_synonym int8 = "8 word"
type_synonym int16 = "16 word"
type_synonym int32 = "32 word"
type_synonym int64 = "64 word"
type_synonym uint8 = "8 word"
type_synonym uint16 = "16 word"
type_synonym uint32 = "32 word"
type_synonym uint64 = "64 word"
type_synonym float32 = "32 word"
type_synonym float64 = "64 word"
type_synonym Duration = "64 word"

definition time_Second :: Duration where
  "time_Second = 1000000000"

text \<open>An \<open>error\<close> value is built by \<open>errors.New\<close> or by \<open>errors.Wrapf\<close> around a cause.\<close>

datatype error = errors_New string | errors_Wrapf error string

text \<open>Calling a method on a nil interface value panics.\<close>

datatype panic = NilPointerDereference

definition invoke :: "'a option \<Rightarrow> ('a \<Rightarrow> 'b) \<Rightarrow> panic + 'b" where
  "invoke receiver method =
     (case receiver of None \<Rightarrow> Inl NilPointerDereference | Some r \<Rightarrow> Inr (method r))"

text \<open>
  Indexing a map with the comma-ok form, \<open>value, ok := m[k]\<close>. The zero value of a map
  is nil (\<open>None\<close>); reading from a nil map finds nothing.
\<close>

definition map_index :: "('k \<rightharpoonup> 'v) option \<Rightarrow> 'k \<Rightarrow> 'v option" where
  "map_index m k = (case m of None \<Rightarrow> None | Some entries \<Rightarrow> entries k)"

section \<open>The interfaces of the imported packages\<close>

text \<open>A \<open>context.Context\<close> is an opaque handle; the options hold one or nil.\<close>

datatype ctx = Ctx nat

text \<open>The \<open>configify.Namespace\<close> of the options.\<close>

record Namespace =
  Name :: string
  Delimiter :: string

text \<open>
  The interface \<open>configify.Source\<close>, as the table of its typed accessors. The
  \<open>Defaults\<close> of the options is a value of this interface, or nil.
\<close>

record (overloaded) ('i, 't) Source =
  src_String :: "string \<Rightarrow> string \<times> bool"
  src_StringSlice :: "string \<Rightarrow> string list \<times> bool"
  src_Int :: "string \<Rightarrow> 'i::len word \<times> bool"
  src_Int8 :: "string \<Rightarrow> int8 \<times> bool"
  src_Int16 :: "string \<Rightarrow> int16 \<times> bool"
  src_Int32 :: "string \<Rightarrow> int32 \<times> bool"
  src_Int64 :: "string \<Rightarrow> int64 \<times> bool"
  src_Uint :: "string \<Rightarrow> 'i word \<times> bool"
  src_Uint8 :: "string \<Rightarrow> uint8 \<times> bool"
  src_Uint16 :: "string \<Rightarrow> uint16 \<times> bool"
  src_Uint32 :: "string \<Rightarrow> uint32 \<times> bool"
  src_Uint64 :: "string \<Rightarrow> uint64 \<times> bool"
  src_Float32 :: "string \<Rightarrow> float32 \<times> bool"
  src_Float64 :: "string \<Rightarrow> float64 \<times> bool"
  src_Bool :: "string \<Rightarrow> bool \<times> bool"
  src_Duration :: "string \<Rightarrow> Duration \<times> bool"
  src_Time :: "string \<Rightarrow> 't \<times> bool"

text \<open>The methods of \<open>configify.Massage\<close> that the accessors call.\<close>

record 't Massage =
  StringToSlice :: "string \<Rightarrow> string list \<times> bool"
  StringToInt64 :: "string \<Rightarrow> int64 \<times> bool"
  StringToUint64 :: "string \<Rightarrow> uint64 \<times> bool"
  StringToFloat64 :: "string \<Rightarrow> float64 \<times> bool"
  StringToBool :: "string \<Rightarrow> bool \<times> bool"
  StringToDuration :: "string \<Rightarrow> Duration \<times> bool"
  StringToTime :: "string \<Rightarrow> 't \<times> bool"

text \<open>
  The type \<open>configify.Options\<close> with the fields the source reads. Every field has Go's
  zero value unless an option sets it.
\<close>

record (overloaded) ('i, 't) Options =
  Context :: "ctx option"
  Address :: string
  Username :: string
  Password :: string
  Namespace :: Namespace
  RefreshInterval :: Duration
  Defaults :: "('i, 't) Source option"

text \<open>
  The Consul client package: the configuration \<open>api.Config\<close> with the fields the source
  writes, a client, its key/value handle, and what \<open>KV.List\<close> brings back: an error, or
  the pairs with the \<open>LastIndex\<close> of the query's metadata.
\<close>

record HttpBasicAuth =
  auth_Username :: string
  auth_Password :: string

record api_Config =
  cfg_Address :: string
  HttpAuth :: "HttpBasicAuth option"

datatype api_Client = NewClient api_Config

datatype api_KV = KV api_Client

record KVPair =
  Key :: string
  Value :: string

record QueryMeta =
  LastIndex :: uint64

type_synonym list_result = "error + KVPair list \<times> QueryMeta"

text \<open>
  What the source calls in the packages it imports: \<open>strings.TrimSpace\<close>,
  \<open>Namespace.Qualify\<close>, the conversion \<open>float32(x)\<close>, \<open>configify.Empty()\<close>,
  \<open>configify.Massage{}\<close>, \<open>api.DefaultConfig()\<close> and \<open>api.NewClient\<close>. None of them
  belongs to this repository, so the model takes them as parameters and every theorem
  holds for each implementation of them.
\<close>

record (overloaded) ('i, 't) library =
  strings_TrimSpace :: "string \<Rightarrow> string"
  Qualify :: "Namespace \<Rightarrow> string \<Rightarrow> string"
  to_float32 :: "float64 \<Rightarrow> float32"
  configify_Empty :: "('i::len, 't) Source"
  configify_Massage :: "'t Massage"
  api_DefaultConfig :: api_Config
  api_NewClient :: "api_Config \<Rightarrow> error + api_Client"

section \<open>The source type\<close>

text \<open>
  The struct \<open>consulSource\<close>. \<open>values\<close> is nil until the first refresh that is
  applied; \<open>watcher\<close> is nil until \<open>Watch\<close> stores a callback. A callback is an opaque
  function value of type \<open>'cb\<close>.
\<close>

record (overloaded) ('i, 't, 'cb, 'z) consulSource =
  client :: api_Client
  kv :: api_KV
  options :: "('i::len, 't, 'z) Options_scheme"
  massage :: "'t Massage"
  "values" :: "(string \<rightharpoonup> string) option"
  lastIndex :: uint64
  watcher :: "'cb option"

text \<open>
  A call of the watcher: the callback and the source it receives. The functions that can
  reach \<open>c.watcher(c)\<close> return the calls they made, in order, beside the new state.
\<close>

type_synonym ('i, 't, 'cb, 'z) watcher_call = "'cb \<times> ('i, 't, 'cb, 'z) consulSource"

section \<open>Refresh\<close>

text \<open>The loop of \<open>refresh\<close> that turns the listed pairs into a map; a later pair wins.\<close>

fun updatedValues :: "KVPair list \<Rightarrow> (string \<rightharpoonup> string) \<Rightarrow> (string \<rightharpoonup> string)" where
  "updatedValues [] m = m"
| "updatedValues (pair # pairs) m = updatedValues pairs (m(Key pair \<mapsto> Value pair))"

text \<open>
  \<open>refresh\<close>, given what \<open>c.kv.List(c.options.Namespace.Name, nil)\<close> returns.
\<close>

definition refresh ::
  "('i::len, 't, 'cb, 'z) consulSource \<Rightarrow> list_result \<Rightarrow>
   ('i, 't, 'cb, 'z) consulSource \<times> ('i, 't, 'cb, 'z) watcher_call list" where
  "refresh c listed =
     (case listed of
        Inl err \<Rightarrow> (c, [])
      | Inr (pairs, meta) \<Rightarrow>
          if LastIndex meta \<le> lastIndex c then (c, [])
          else
            let c' = c\<lparr>lastIndex := LastIndex meta,
                       values := Some (updatedValues pairs Map.empty)\<rparr>
            in (case watcher c' of
                  None \<Rightarrow> (c', [])
                | Some callback \<Rightarrow> (c', [(callback, c')])))"

section \<open>The background loop\<close>

text \<open>
  \<open>listen\<close> starts a goroutine and returns nil. The goroutine's body is a loop around
  one \<open>select\<close>, followed by \<open>refresh\<close>; it blocks at two places, the \<open>select\<close> and
  the call of \<open>KV.List\<close> with which \<open>refresh\<close> begins. The model is the state machine
  between these places. What happens around the goroutine is an event:
  \<^item> \<open>Cancel\<close>: the context is cancelled, which closes its \<open>Done\<close> channel. A goroutine
    blocked in the \<open>select\<close> receives from it and returns. One that is inside
    \<open>refresh\<close> finishes the call and finds the channel closed at its next \<open>select\<close>,
    where the timer it has just created cannot have fired yet (the refresh interval is
    positive).
  \<^item> \<open>TimerFires\<close>: the \<open>select\<close> receives from the timer; the loop calls \<open>refresh\<close>,
    which calls \<open>KV.List\<close>.
  \<^item> \<open>ListReturns listed\<close>: the pending \<open>KV.List\<close> returns \<open>listed\<close>; the rest of
    \<open>refresh\<close> runs and the loop is back at its \<open>select\<close>.
  An event that the goroutine's place does not allow changes nothing. A run is the fold of
  \<open>step\<close> over a finite list of events, a finite prefix of an execution. The source
  is shared with the callers of the accessors and of \<open>Watch\<close>, which see and change the
  \<open>source\<close> of the goroutine between two events.
\<close>

datatype phase = Selecting | Listing | Returned

datatype event = Cancel | TimerFires | ListReturns list_result

record (overloaded) ('i, 't, 'cb, 'z) goroutine =
  source :: "('i::len, 't, 'cb, 'z) consulSource"
  phase :: phase
  cancelled :: bool

definition listen ::
  "('i::len, 't, 'cb, 'z) consulSource \<Rightarrow> ('i, 't, 'cb, 'z) goroutine \<times> error option" where
  "listen c = (\<lparr>source = c, phase = Selecting, cancelled = False\<rparr>, None)"

fun step ::
  "('i::len, 't, 'cb, 'z) goroutine \<Rightarrow> event \<Rightarrow>
   ('i, 't, 'cb, 'z) goroutine \<times> ('i, 't, 'cb, 'z) watcher_call list" where
  "step g Cancel =
     (if phase g = Selecting then (g\<lparr>phase := Returned, cancelled := True\<rparr>, [])
      else (g\<lparr>cancelled := True\<rparr>, []))"
| "step g TimerFires =
     (if phase g = Selecting then (g\<lparr>phase := Listing\<rparr>, []) else (g, []))"
| "step g (ListReturns listed) =
     (if phase g = Listing then
        let (c', calls) = refresh (source g) listed
        in (g\<lparr>source := c', phase := (if cancelled g then Returned else Selecting)\<rparr>, calls)
      else (g, []))"

fun run ::
  "('i::len, 't, 'cb, 'z) goroutine \<Rightarrow> event list \<Rightarrow>
   ('i, 't, 'cb, 'z) goroutine \<times> ('i, 't, 'cb, 'z) watcher_call list" where
  "run g [] = (g, [])"
| "run g (e # es) =
     (let (g', calls) = step g e;
          (g'', calls') = run g' es
      in (g'', calls @ calls'))"

text \<open>
  The listing that a goroutine waiting in \<open>KV.List\<close> receives: the first one among the
  events to come, if there is any.
\<close>

fun first_listing :: "event list \<Rightarrow> list_result option" where
  "first_listing [] = None"
| "first_listing (ListReturns listed # es) = Some listed"
| "first_listing (Cancel # es) = first_listing es"
| "first_listing (TimerFires # es) = first_listing es"

section \<open>Lookup, Watch and the typed accessors\<close>

definition lookup ::
  "('i::len, 't) library \<Rightarrow> ('i, 't, 'cb, 'z) consulSource \<Rightarrow> string \<Rightarrow> string \<times> bool" where
  "lookup L c key =
     (case map_index (values c) (Qualify L (Namespace (options c)) key) of
        Some value \<Rightarrow> (strings_TrimSpace L value, True)
      | None \<Rightarrow> ('''', False))"

definition Watch ::
  "('i::len, 't, 'cb, 'z) consulSource \<Rightarrow> 'cb option \<Rightarrow> ('i, 't, 'cb, 'z) consulSource" where
  "Watch c callback = c\<lparr>watcher := callback\<rparr>"

definition String ::
  "('i::len, 't) library \<Rightarrow> ('i, 't, 'cb, 'z) consulSource \<Rightarrow> string \<Rightarrow>
   panic + string \<times> bool" where
  "String L c key =
     (let (value, ok) = lookup L c key in
      if \<not> ok then invoke (Defaults (options c)) (\<lambda>d. src_String d key)
      else Inr (value, True))"

definition StringSlice ::
  "('i::len, 't) library \<Rightarrow> ('i, 't, 'cb, 'z) consulSource \<Rightarrow> string \<Rightarrow>
   panic + string list \<times> bool" where
  "StringSlice L c key =
     (let (value, ok) = lookup L c key in
      if \<not> ok then invoke (Defaults (options c)) (\<lambda>d. src_StringSlice d key)
      else Inr (StringToSlice (massage c) value))"

definition Int' ::
  "('i::len, 't) library \<Rightarrow> ('i, 't, 'cb, 'z) consulSource \<Rightarrow> string \<Rightarrow>
   panic + 'i word \<times> bool" where
  "Int' L c key =
     (let (value, ok) = lookup L c key in
      if \<not> ok then invoke (Defaults (options c)) (\<lambda>d. src_Int d key)
      else let (number, ok) = StringToInt64 (massage c) value in Inr (ucast number, ok))"

definition Int8 ::
  "('i::len, 't) library \<Rightarrow> ('i, 't, 'cb, 'z) consulSource \<Rightarrow> string \<Rightarrow>
   panic + int8 \<times> bool" where
  "Int8 L c key =
     (let (value, ok) = lookup L c key in
      if \<not> ok then invoke (Defaults (options c)) (\<lambda>d. src_Int8 d key)
      else let (number, ok) = StringToInt64 (massage c) value in Inr (ucast number, ok))"

definition Int16 ::
  "('i::len, 't) library \<Rightarrow> ('i, 't, 'cb, 'z) consulSource \<Rightarrow> string \<Rightarrow>
   panic + int16 \<times> bool" where
  "Int16 L c key =
     (let (value, ok) = lookup L c key in
      if \<not> ok then invoke (Defaults (options c)) (\<lambda>d. src_Int16 d key)
      else let (number, ok) = StringToInt64 (massage c) value in Inr (ucast number, ok))"

definition Int32 ::
  "('i::len, 't) library \<Rightarrow> ('i, 't, 'cb, 'z) consulSource \<Rightarrow> string \<Rightarrow>
   panic + int32 \<times> bool" where
  "Int32 L c key =
     (let (value, ok) = lookup L c key in
      if \<not> ok then invoke (Defaults (options c)) (\<lambda>d. src_Int32 d key)
      else let (number, ok) = StringToInt64 (massage c) value in Inr (ucast number, ok))"

definition Int64 ::
  "('i::len, 't) library \<Rightarrow> ('i, 't, 'cb, 'z) consulSource \<Rightarrow> string \<Rightarrow>
   panic + int64 \<times> bool" where
  "Int64 L c key =
     (let (value, ok) = lookup L c key in
      if \<not> ok then invoke (Defaults (options c)) (\<lambda>d. src_Int64 d key)
      else Inr (StringToInt64 (massage c) value))"

definition Uint ::
  "('i::len, 't) library \<Rightarrow> ('i, 't, 'cb, 'z) consulSource \<Rightarrow> string \<Rightarrow>
   panic + 'i word \<times> bool" where
  "Uint L c key =
     (let (value, ok) = lookup L c key in
      if \<not> ok then invoke (Defaults (options c)) (\<lambda>d. src_Uint d key)
      else let (number, ok) = StringToUint64 (massage c) value in Inr (ucast number, ok))"

definition Uint8 ::
  "('i::len, 't) library \<Rightarrow> ('i, 't, 'cb, 'z) consulSource \<Rightarrow> string \<Rightarrow>
   panic + uint8 \<times> bool" where
  "Uint8 L c key =
     (let (value, ok) = lookup L c key in
      if \<not> ok then invoke (Defaults (options c)) (\<lambda>d. src_Uint8 d key)
      else let (number, ok) = StringToUint64 (massage c) value in Inr (ucast number, ok))"

definition Uint16 ::
  "('i::len, 't) library \<Rightarrow> ('i, 't, 'cb, 'z) consulSource \<Rightarrow> string \<Rightarrow>
   panic + uint16 \<times> bool" where
  "Uint16 L c key =
     (let (value, ok) = lookup L c key in
      if \<not> ok then invoke (Defaults (options c)) (\<lambda>d. src_Uint16 d key)
      else let (number, ok) = StringToUint64 (massage c) value in Inr (ucast number, ok))"

definition Uint32 ::
  "('i::len, 't) library \<Rightarrow> ('i, 't, 'cb, 'z) consulSource \<Rightarrow> string \<Rightarrow>
   panic + uint32 \<times> bool" where
  "Uint32 L c key =
     (let (value, ok) = lookup L c key in
      if \<not> ok then invoke (Defaults (options c)) (\<lambda>d. src_Uint32 d key)
      else let (number, ok) = StringToUint64 (massage c) value in Inr (ucast number, ok))"

definition Uint64 ::
  "('i::len, 't) library \<Rightarrow> ('i, 't, 'cb, 'z) consulSource \<Rightarrow> string \<Rightarrow>
   panic + uint64 \<times> bool" where
  "Uint64 L c key =
     (let (value, ok) = lookup L c key in
      if \<not> ok then invoke (Defaults (options c)) (\<lambda>d. src_Uint64 d key)
      else Inr (StringToUint64 (massage c) value))"

definition Float32 ::
  "('i::len, 't) library \<Rightarrow> ('i, 't, 'cb, 'z) consulSource \<Rightarrow> string \<Rightarrow>
   panic + float32 \<times> bool" where
  "Float32 L c key =
     (let (value, ok) = lookup L c key in
      if \<not> ok then invoke (Defaults (options c)) (\<lambda>d. src_Float32 d key)
      else let (number, ok) = StringToFloat64 (massage c) value
           in Inr (to_float32 L number, ok))"

definition Float64 ::
  "('i::len, 't) library \<Rightarrow> ('i, 't, 'cb, 'z) consulSource \<Rightarrow> string \<Rightarrow>
   panic + float64 \<times> bool" where
  "Float64 L c key =
     (let (value, ok) = lookup L c key in
      if \<not> ok then invoke (Defaults (options c)) (\<lambda>d. src_Float64 d key)
      else Inr (StringToFloat64 (massage c) value))"

definition Bool ::
  "('i::len, 't) library \<Rightarrow> ('i, 't, 'cb, 'z) consulSource \<Rightarrow> string \<Rightarrow>
   panic + bool \<times> bool" where
  "Bool L c key =
     (let (value, ok) = lookup L c key in
      if \<not> ok then invoke (Defaults (options c)) (\<lambda>d. src_Bool d key)
      else Inr (StringToBool (massage c) value))"

definition Duration ::
  "('i::len, 't) library \<Rightarrow> ('i, 't, 'cb, 'z) consulSource \<Rightarrow> string \<Rightarrow>
   panic + Duration \<times> bool" where
  "Duration L c key =
     (let (value, ok) = lookup L c key in
      if \<not> ok then invoke (Defaults (options c)) (\<lambda>d. src_Duration d key)
      else Inr (StringToDuration (massage c) value))"

definition Time ::
  "('i::len, 't) library \<Rightarrow> ('i, 't, 'cb, 'z) consulSource \<Rightarrow> string \<Rightarrow>
   panic + 't \<times> bool" where
  "Time L c key =
     (let (value, ok) = lookup L c key in
      if \<not> ok then invoke (Defaults (options c)) (\<lambda>d. src_Time d key)
      else Inr (StringToTime (massage c) value))"

section \<open>Construction\<close>

text \<open>
  \<open>NewSource\<close> as the test suite calls it: the options are functions applied in order
  to the default options. It returns the pair of Go results, the source (or nil) and the
  error (or nil), and the watcher calls made during construction. \<open>first\<close> is what
  \<open>KV.List\<close> returns to the initial \<open>refresh\<close>.
\<close>

definition "apply" ::
  "(('i::len, 't) Options \<Rightarrow> ('i, 't) Options) list \<Rightarrow> ('i, 't) Options \<Rightarrow> ('i, 't) Options" where
  "apply opts defaults = foldl (\<lambda>defaults option. option defaults) defaults opts"

definition toConsulConfig :: "('i::len, 't) library \<Rightarrow> ('i, 't) Options \<Rightarrow> api_Config" where
  "toConsulConfig L opts =
     (let consulConfig = (api_DefaultConfig L)\<lparr>cfg_Address := Address opts\<rparr>
      in if Username opts \<noteq> '''' \<or> Password opts \<noteq> ''''
         then consulConfig\<lparr>HttpAuth :=
                Some \<lparr>auth_Username = Username opts, auth_Password = Password opts\<rparr>\<rparr>
         else consulConfig)"

text \<open>
  The options \<open>NewSource\<close> starts from, the literal
  \<open>&configify.Options{Defaults: configify.Empty(), RefreshInterval: 10 * time.Second}\<close>:
  the other fields have their zero values.
\<close>

definition default_Options :: "('i::len, 't) library \<Rightarrow> ('i, 't) Options" where
  "default_Options L =
     \<lparr>Context = None, Address = '''', Username = '''', Password = '''',
      Namespace = \<lparr>Name = '''', Delimiter = ''''\<rparr>,
      RefreshInterval = 10 * time_Second,
      Defaults = Some (configify_Empty L)\<rparr>"

definition NewSource ::
  "('i::len, 't) library \<Rightarrow> (('i, 't) Options \<Rightarrow> ('i, 't) Options) list \<Rightarrow> list_result \<Rightarrow>
   (('i, 't, 'cb, unit) consulSource option \<times> error option) \<times>
   ('i, 't, 'cb, unit) watcher_call list" where
  "NewSource L opts first =
     (let options = apply opts (default_Options L)
      in if Context options = None
         then ((None, Some (errors_New ''consul source: missing context option'')), [])
         else if Address options = ''''
         then ((None, Some (errors_New ''consul source: missing address option'')), [])
         else
           (case api_NewClient L (toConsulConfig L options) of
              Inl err \<Rightarrow> ((None, Some (errors_Wrapf err ''consul source: connect error'')), [])
            | Inr cl \<Rightarrow>
                let source = \<lparr>client = cl, kv = KV cl, options = options,
                              massage = configify_Massage L, values = None, lastIndex = 0,
                              watcher = None\<rparr>;
                    (source, calls) = refresh source first
                in ((Some source, snd (listen source)), calls)))"

text \<open>
  The earlier \<open>NewSource\<close> of \<open>consul.go\<close>: the caller passes the client in the options,
  which extend \<open>configify.Options\<close>. Its struct has no \<open>client\<close> field; the model
  keeps the client the \<open>kv\<close> handle comes from there.
\<close>

record (overloaded) ('i, 't) ClientOptions = "('i::len, 't) Options" +
  Client :: "api_Client option"

definition NewSource_Client ::
  "('i::len, 't) library \<Rightarrow> ('i, 't) ClientOptions \<Rightarrow> list_result \<Rightarrow>
   (('i, 't, 'cb, \<lparr>Client :: api_Client option\<rparr>) consulSource option \<times> error option) \<times>
   ('i, 't, 'cb, \<lparr>Client :: api_Client option\<rparr>) watcher_call list" where
  "NewSource_Client L opts first =
     (if Context opts = None
      then ((None, Some (errors_New ''consul source: context is nil'')), [])
      else
        (case Client opts of
           None \<Rightarrow> ((None, Some (errors_New ''consul source: client is nil'')), [])
         | Some cl \<Rightarrow>
             let options = (if RefreshInterval opts <s 1 * time_Second
                            then opts\<lparr>RefreshInterval := 10 * time_Second\<rparr> else opts);
                 options = (if Defaults options = None
                            then options\<lparr>Defaults := Some (configify_Empty L)\<rparr> else options);
                 source = \<lparr>client = cl, kv = KV cl, options = options,
                           massage = configify_Massage L, values = None, lastIndex = 0,
                           watcher = None\<rparr>;
                 (source, calls) = refresh source first
             in ((Some source, snd (listen source)), calls)))"

section \<open>A sample environment\<close>

text \<open>
  One implementation of the imported packages, small enough to evaluate, on which the
  theorems below are instantiated: trimming of ASCII white space, qualification of a key
  by name and delimiter, decimal parsing of integers, \<open>true\<close> and \<open>false\<close> for
  booleans, an empty defaults source that finds nothing, a client constructor that
  rejects an \<open>ftp\<close> address, and the option functions the test suite uses. The theorems
  themselves do not depend on it.
\<close>

definition asciiSpace :: "char \<Rightarrow> bool" where
  "asciiSpace ch =
     (ch = CHR '' '' \<or> ch = CHR 0x09 \<or> ch = CHR 0x0A \<or> ch = CHR 0x0B \<or> ch = CHR 0x0C
      \<or> ch = CHR 0x0D)"

definition sample_TrimSpace :: "string \<Rightarrow> string" where
  "sample_TrimSpace s = rev (dropWhile asciiSpace (rev (dropWhile asciiSpace s)))"

definition sample_Qualify :: "Namespace \<Rightarrow> string \<Rightarrow> string" where
  "sample_Qualify ns key = (if Name ns = '''' then key else Name ns @ Delimiter ns @ key)"

definition digit :: "char \<Rightarrow> nat option" where
  "digit ch =
     (if ch = CHR ''0'' then Some 0 else if ch = CHR ''1'' then Some 1
      else if ch = CHR ''2'' then Some 2 else if ch = CHR ''3'' then Some 3
      else if ch = CHR ''4'' then Some 4 else if ch = CHR ''5'' then Some 5
      else if ch = CHR ''6'' then Some 6 else if ch = CHR ''7'' then Some 7
      else if ch = CHR ''8'' then Some 8 else if ch = CHR ''9'' then Some 9
      else None)"

fun decimal :: "string \<Rightarrow> nat \<Rightarrow> nat option" where
  "decimal [] n = Some n"
| "decimal (ch # s) n = (case digit ch of None \<Rightarrow> None | Some d \<Rightarrow> decimal s (10 * n + d))"

definition sample_StringToUint64 :: "string \<Rightarrow> uint64 \<times> bool" where
  "sample_StringToUint64 s =
     (if s = [] then (0, False)
      else case decimal s 0 of
             None \<Rightarrow> (0, False)
           | Some n \<Rightarrow> if n < 2 ^ 64 then (of_nat n, True) else (0, False))"

definition sample_StringToInt64 :: "string \<Rightarrow> int64 \<times> bool" where
  "sample_StringToInt64 s =
     (if s = [] then (0, False)
      else case decimal s 0 of
             None \<Rightarrow> (0, False)
           | Some n \<Rightarrow> if n < 2 ^ 63 then (of_nat n, True) else (0, False))"

definition sample_StringToBool :: "string \<Rightarrow> bool \<times> bool" where
  "sample_StringToBool s =
     (if s = ''true'' then (True, True) else if s = ''false'' then (False, True)
      else (False, False))"

definition sample_StringToSlice :: "string \<Rightarrow> string list \<times> bool" where
  "sample_StringToSlice s = (if s = [] then ([], False) else ([s], True))"

definition sample_Massage :: "nat Massage" where
  "sample_Massage =
     \<lparr>StringToSlice = sample_StringToSlice,
      StringToInt64 = sample_StringToInt64,
      StringToUint64 = sample_StringToUint64,
      StringToFloat64 = (\<lambda>s. (0, False)),
      StringToBool = sample_StringToBool,
      StringToDuration = (\<lambda>s. (0, False)),
      StringToTime = (\<lambda>s. (0, False))\<rparr>"

definition sample_Empty :: "(64, nat) Source" where
  "sample_Empty =
     \<lparr>src_String = (\<lambda>key. ('''', False)),
      src_StringSlice = (\<lambda>key. ([], False)),
      src_Int = (\<lambda>key. (0, False)),
      src_Int8 = (\<lambda>key. (0, False)),
      src_Int16 = (\<lambda>key. (0, False)),
      src_Int32 = (\<lambda>key. (0, False)),
      src_Int64 = (\<lambda>key. (0, False)),
      src_Uint = (\<lambda>key. (0, False)),
      src_Uint8 = (\<lambda>key. (0, False)),
      src_Uint16 = (\<lambda>key. (0, False)),
      src_Uint32 = (\<lambda>key. (0, False)),
      src_Uint64 = (\<lambda>key. (0, False)),
      src_Float32 = (\<lambda>key. (0, False)),
      src_Float64 = (\<lambda>key. (0, False)),
      src_Bool = (\<lambda>key. (False, False)),
      src_Duration = (\<lambda>key. (0, False)),
      src_Time = (\<lambda>key. (0, False))\<rparr>"

definition sample_NewClient :: "api_Config \<Rightarrow> error + api_Client" where
  "sample_NewClient config =
     (if take 6 (cfg_Address config) = ''ftp://''
      then Inl (errors_New ''Unknown protocol scheme: ftp'')
      else Inr (NewClient config))"

definition sample_library :: "(64, nat) library" where
  "sample_library =
     \<lparr>strings_TrimSpace = sample_TrimSpace,
      Qualify = sample_Qualify,
      to_float32 = ucast,
      configify_Empty = sample_Empty,
      configify_Massage = sample_Massage,
      api_DefaultConfig = \<lparr>cfg_Address = ''127.0.0.1:8500'', HttpAuth = None\<rparr>,
      api_NewClient = sample_NewClient\<rparr>"

definition configify_Context :: "ctx \<Rightarrow> (64, nat) Options \<Rightarrow> (64, nat) Options" where
  "configify_Context c opts = opts\<lparr>Context := Some c\<rparr>"

definition configify_Address :: "string \<Rightarrow> (64, nat) Options \<Rightarrow> (64, nat) Options" where
  "configify_Address a opts = opts\<lparr>Address := a\<rparr>"

definition configify_Namespace :: "string \<Rightarrow> (64, nat) Options \<Rightarrow> (64, nat) Options" where
  "configify_Namespace n opts = opts\<lparr>Namespace := (Namespace opts)\<lparr>Name := n\<rparr>\<rparr>"

definition configify_NamespaceDelim :: "string \<Rightarrow> (64, nat) Options \<Rightarrow> (64, nat) Options" where
  "configify_NamespaceDelim d opts = opts\<lparr>Namespace := (Namespace opts)\<lparr>Delimiter := d\<rparr>\<rparr>"

text \<open>The options of the test suite's \<open>SetupTest\<close>, without the refresh interval.\<close>

definition sample_opts :: "((64, nat) Options \<Rightarrow> (64, nat) Options) list" where
  "sample_opts =
     [configify_Context (Ctx 0), configify_Address ''127.0.0.1:8500'',
      configify_Namespace ''FOO'', configify_NamespaceDelim ''/'']"

text \<open>
  Listings of the store: part of the test suite's store with one padded value added, and
  the same store after \<open>FOO/HTTP_HOST\<close> has been changed.
\<close>

definition store_pairs :: "KVPair list" where
  "store_pairs =
     [\<lparr>Key = ''FOO/HTTP_HOST'', Value = ''foo.example.com''\<rparr>,
      \<lparr>Key = ''FOO/HTTP_PORT'', Value = ''1234''\<rparr>,
      \<lparr>Key = ''FOO/BOOL_TRUE'', Value = ''true''\<rparr>,
      \<lparr>Key = ''FOO/PADDED'', Value = ''  42 ''\<rparr>]"

definition store_pairs_updated :: "KVPair list" where
  "store_pairs_updated =
     [\<lparr>Key = ''FOO/HTTP_HOST'', Value = ''google.com''\<rparr>,
      \<lparr>Key = ''FOO/HTTP_PORT'', Value = ''1234''\<rparr>,
      \<lparr>Key = ''FOO/BOOL_TRUE'', Value = ''true''\<rparr>,
      \<lparr>Key = ''FOO/PADDED'', Value = ''  42 ''\<rparr>]"

text \<open>
  The source that \<open>NewSource\<close> builds from \<open>sample_opts\<close>: before any listing has been
  applied, and with a listing applied at a given index. Callbacks are numbers.
\<close>

definition sample_options :: "(64, nat) Options" where
  "sample_options =
     \<lparr>Context = Some (Ctx 0), Address = ''127.0.0.1:8500'', Username = '''', Password = '''',
      Namespace = \<lparr>Name = ''FOO'', Delimiter = ''/''\<rparr>,
      RefreshInterval = 10 * time_Second,
      Defaults = Some sample_Empty\<rparr>"

definition sample_unloaded :: "(64, nat, nat, unit) consulSource" where
  "sample_unloaded =
     \<lparr>client = NewClient \<lparr>cfg_Address = ''127.0.0.1:8500'', HttpAuth = None\<rparr>,
      kv = KV (NewClient \<lparr>cfg_Address = ''127.0.0.1:8500'', HttpAuth = None\<rparr>),
      options = sample_options, massage = sample_Massage,
      values = None, lastIndex = 0, watcher = None\<rparr>"

definition sample_loaded :: "KVPair list \<Rightarrow> uint64 \<Rightarrow> (64, nat, nat, unit) consulSource" where
  "sample_loaded pairs index =
     sample_unloaded\<lparr>lastIndex := index, values := Some (updatedValues pairs Map.empty)\<rparr>"

text \<open>
  A defaults source that knows a host and a port, and the unloaded source with it as its
  \<open>Defaults\<close>.
\<close>

definition sample_Defaults :: "(64, nat) Source" where
  "sample_Defaults =
     sample_Empty
       \<lparr>src_String := (\<lambda>key. if key = ''HTTP_HOST'' then (''localhost'', True) else ('''', False)),
        src_Uint16 := (\<lambda>key. if key = ''HTTP_PORT'' then (8080, True) else (0, False))\<rparr>"

definition sample_with_defaults :: "(64, nat, nat, unit) consulSource" where
  "sample_with_defaults =
     sample_unloaded\<lparr>options := sample_options\<lparr>Defaults := Some sample_Defaults\<rparr>\<rparr>"

section \<open>Lookup and the accessors on a key that is present or absent\<close>

lemma lookup_present:
  "map_index (values c) (Qualify L (Namespace (options c)) key) = Some raw \<Longrightarrow>
   lookup L c key = (strings_TrimSpace L raw, True)"
  by (simp add: lookup_def)

lemma lookup_absent:
  "map_index (values c) (Qualify L (Namespace (options c)) key) = None \<Longrightarrow>
   lookup L c key = ('''', False)"
  by (simp add: lookup_def)

lemma String_present:
  "map_index (values c) (Qualify L (Namespace (options c)) key) = Some raw \<Longrightarrow>
   String L c key = Inr (strings_TrimSpace L raw, True)"
  by (simp add: String_def lookup_present)

lemma String_absent:
  "map_index (values c) (Qualify L (Namespace (options c)) key) = None \<Longrightarrow>
   String L c key = invoke (Defaults (options c)) (\<lambda>d. src_String d key)"
  by (simp add: String_def lookup_absent)

lemma StringSlice_present:
  "map_index (values c) (Qualify L (Namespace (options c)) key) = Some raw \<Longrightarrow>
   StringSlice L c key = Inr (StringToSlice (massage c) (strings_TrimSpace L raw))"
  by (simp add: StringSlice_def lookup_present)

lemma StringSlice_absent:
  "map_index (values c) (Qualify L (Namespace (options c)) key) = None \<Longrightarrow>
   StringSlice L c key = invoke (Defaults (options c)) (\<lambda>d. src_StringSlice d key)"
  by (simp add: StringSlice_def lookup_absent)

lemma Int_present:
  "map_index (values c) (Qualify L (Namespace (options c)) key) = Some raw \<Longrightarrow>
   Int' L c key = (case StringToInt64 (massage c) (strings_TrimSpace L raw) of (number, ok) \<Rightarrow> Inr (ucast number, ok))"
  by (simp add: Int'_def lookup_present)

lemma Int_absent:
  "map_index (values c) (Qualify L (Namespace (options c)) key) = None \<Longrightarrow>
   Int' L c key = invoke (Defaults (options c)) (\<lambda>d. src_Int d key)"
  by (simp add: Int'_def lookup_absent)

lemma Int8_present:
  "map_index (values c) (Qualify L (Namespace (options c)) key) = Some raw \<Longrightarrow>
   Int8 L c key = (case StringToInt64 (massage c) (strings_TrimSpace L raw) of (number, ok) \<Rightarrow> Inr (ucast number, ok))"
  by (simp add: Int8_def lookup_present)

lemma Int8_absent:
  "map_index (values c) (Qualify L (Namespace (options c)) key) = None \<Longrightarrow>
   Int8 L c key = invoke (Defaults (options c)) (\<lambda>d. src_Int8 d key)"
  by (simp add: Int8_def lookup_absent)

lemma Int16_present:
  "map_index (values c) (Qualify L (Namespace (options c)) key) = Some raw \<Longrightarrow>
   Int16 L c key = (case StringToInt64 (massage c) (strings_TrimSpace L raw) of (number, ok) \<Rightarrow> Inr (ucast number, ok))"
  by (simp add: Int16_def lookup_present)

lemma Int16_absent:
  "map_index (values c) (Qualify L (Namespace (options c)) key) = None \<Longrightarrow>
   Int16 L c key = invoke (Defaults (options c)) (\<lambda>d. src_Int16 d key)"
  by (simp add: Int16_def lookup_absent)

lemma Int32_present:
  "map_index (values c) (Qualify L (Namespace (options c)) key) = Some raw \<Longrightarrow>
   Int32 L c key = (case StringToInt64 (massage c) (strings_TrimSpace L raw) of (number, ok) \<Rightarrow> Inr (ucast number, ok))"
  by (simp add: Int32_def lookup_present)

lemma Int32_absent:
  "map_index (values c) (Qualify L (Namespace (options c)) key) = None \<Longrightarrow>
   Int32 L c key = invoke (Defaults (options c)) (\<lambda>d. src_Int32 d key)"
  by (simp add: Int32_def lookup_absent)

lemma Int64_present:
  "map_index (values c) (Qualify L (Namespace (options c)) key) = Some raw \<Longrightarrow>
   Int64 L c key = Inr (StringToInt64 (massage c) (strings_TrimSpace L raw))"
  by (simp add: Int64_def lookup_present)

lemma Int64_absent:
  "map_index (values c) (Qualify L (Namespace (options c)) key) = None \<Longrightarrow>
   Int64 L c key = invoke (Defaults (options c)) (\<lambda>d. src_Int64 d key)"
  by (simp add: Int64_def lookup_absent)

lemma Uint_present:
  "map_index (values c) (Qualify L (Namespace (options c)) key) = Some raw \<Longrightarrow>
   Uint L c key = (case StringToUint64 (massage c) (strings_TrimSpace L raw) of (number, ok) \<Rightarrow> Inr (ucast number, ok))"
  by (simp add: Uint_def lookup_present)

lemma Uint_absent:
  "map_index (values c) (Qualify L (Namespace (options c)) key) = None \<Longrightarrow>
   Uint L c key = invoke (Defaults (options c)) (\<lambda>d. src_Uint d key)"
  by (simp add: Uint_def lookup_absent)

lemma Uint8_present:
  "map_index (values c) (Qualify L (Namespace (options c)) key) = Some raw \<Longrightarrow>
   Uint8 L c key = (case StringToUint64 (massage c) (strings_TrimSpace L raw) of (number, ok) \<Rightarrow> Inr (ucast number, ok))"
  by (simp add: Uint8_def lookup_present)

lemma Uint8_absent:
  "map_index (values c) (Qualify L (Namespace (options c)) key) = None \<Longrightarrow>
   Uint8 L c key = invoke (Defaults (options c)) (\<lambda>d. src_Uint8 d key)"
  by (simp add: Uint8_def lookup_absent)

lemma Uint16_present:
  "map_index (values c) (Qualify L (Namespace (options c)) key) = Some raw \<Longrightarrow>
   Uint16 L c key = (case StringToUint64 (massage c) (strings_TrimSpace L raw) of (number, ok) \<Rightarrow> Inr (ucast number, ok))"
  by (simp add: Uint16_def lookup_present)

lemma Uint16_absent:
  "map_index (values c) (Qualify L (Namespace (options c)) key) = None \<Longrightarrow>
   Uint16 L c key = invoke (Defaults (options c)) (\<lambda>d. src_Uint16 d key)"
  by (simp add: Uint16_def lookup_absent)

lemma Uint32_present:
  "map_index (values c) (Qualify L (Namespace (options c)) key) = Some raw \<Longrightarrow>
   Uint32 L c key = (case StringToUint64 (massage c) (strings_TrimSpace L raw) of (number, ok) \<Rightarrow> Inr (ucast number, ok))"
  by (simp add: Uint32_def lookup_present)

lemma Uint32_absent:
  "map_index (values c) (Qualify L (Namespace (options c)) key) = None \<Longrightarrow>
   Uint32 L c key = invoke (Defaults (options c)) (\<lambda>d. src_Uint32 d key)"
  by (simp add: Uint32_def lookup_absent)

lemma Uint64_present:
  "map_index (values c) (Qualify L (Namespace (options c)) key) = Some raw \<Longrightarrow>
   Uint64 L c key = Inr (StringToUint64 (massage c) (strings_TrimSpace L raw))"
  by (simp add: Uint64_def lookup_present)

lemma Uint64_absent:
  "map_index (values c) (Qualify L (Namespace (options c)) key) = None \<Longrightarrow>
   Uint64 L c key = invoke (Defaults (options c)) (\<lambda>d. src_Uint64 d key)"
  by (simp add: Uint64_def lookup_absent)

lemma Float32_present:
  "map_index (values c) (Qualify L (Namespace (options c)) key) = Some raw \<Longrightarrow>
   Float32 L c key = (case StringToFloat64 (massage c) (strings_TrimSpace L raw) of (number, ok) \<Rightarrow> Inr (to_float32 L number, ok))"
  by (simp add: Float32_def lookup_present)

lemma Float32_absent:
  "map_index (values c) (Qualify L (Namespace (options c)) key) = None \<Longrightarrow>
   Float32 L c key = invoke (Defaults (options c)) (\<lambda>d. src_Float32 d key)"
  by (simp add: Float32_def lookup_absent)

lemma Float64_present:
  "map_index (values c) (Qualify L (Namespace (options c)) key) = Some raw \<Longrightarrow>
   Float64 L c key = Inr (StringToFloat64 (massage c) (strings_TrimSpace L raw))"
  by (simp add: Float64_def lookup_present)

lemma Float64_absent:
  "map_index (values c) (Qualify L (Namespace (options c)) key) = None \<Longrightarrow>
   Float64 L c key = invoke (Defaults (options c)) (\<lambda>d. src_Float64 d key)"
  by (simp add: Float64_def lookup_absent)

lemma Bool_present:
  "map_index (values c) (Qualify L (Namespace (options c)) key) = Some raw \<Longrightarrow>
   Bool L c key = Inr (StringToBool (massage c) (strings_TrimSpace L raw))"
  by (simp add: Bool_def lookup_present)

lemma Bool_absent:
  "map_index (values c) (Qualify L (Namespace (options c)) key) = None \<Longrightarrow>
   Bool L c key = invoke (Defaults (options c)) (\<lambda>d. src_Bool d key)"
  by (simp add: Bool_def lookup_absent)

lemma Duration_present:
  "map_index (values c) (Qualify L (Namespace (options c)) key) = Some raw \<Longrightarrow>
   Duration L c key = Inr (StringToDuration (massage c) (strings_TrimSpace L raw))"
  by (simp add: Duration_def lookup_present)

lemma Duration_absent:
  "map_index (values c) (Qualify L (Namespace (options c)) key) = None \<Longrightarrow>
   Duration L c key = invoke (Defaults (options c)) (\<lambda>d. src_Duration d key)"
  by (simp add: Duration_def lookup_absent)

lemma Time_present:
  "map_index (values c) (Qualify L (Namespace (options c)) key) = Some raw \<Longrightarrow>
   Time L c key = Inr (StringToTime (massage c) (strings_TrimSpace L raw))"
  by (simp add: Time_def lookup_present)

lemma Time_absent:
  "map_index (values c) (Qualify L (Namespace (options c)) key) = None \<Longrightarrow>
   Time L c key = invoke (Defaults (options c)) (\<lambda>d. src_Time d key)"
  by (simp add: Time_def lookup_absent)

section \<open>Narrowing of integers\<close>

text \<open>
  Converting a word to a narrower one keeps the low bits: read unsigned, the result is
  the number modulo \<open>2 ^ w\<close>; read signed, it is the number wrapped into
  \<open>- 2 ^ (w - 1) ..< 2 ^ (w - 1)\<close>.
\<close>

lemma sint_ucast_wrap:
  fixes n :: "'a::len word"
  assumes "LENGTH('b::len) \<le> LENGTH('a)"
  shows "sint (ucast n :: 'b word) =
         (sint n + 2 ^ (LENGTH('b) - 1)) mod 2 ^ LENGTH('b) - 2 ^ (LENGTH('b) - 1)"
proof -
  have "sint (ucast n :: 'b word) = signed_take_bit (LENGTH('b) - 1) (uint n)"
    by (simp add: signed_ucast_eq)
  also have "\<dots> = signed_take_bit (LENGTH('b) - 1) (sint n)"
    using assms by (simp add: sint_uint min_def)
  also have "\<dots> = (sint n + 2 ^ (LENGTH('b) - 1)) mod 2 ^ LENGTH('b) - 2 ^ (LENGTH('b) - 1)"
    by (simp add: signed_take_bit_eq_take_bit_shift take_bit_eq_mod)
  finally show ?thesis .
qed

lemma unat_ucast_wrap:
  fixes n :: "'a::len word"
  shows "unat (ucast n :: 'b::len word) = unat n mod 2 ^ LENGTH('b)"
  by (simp add: unsigned_ucast_eq take_bit_eq_mod)

text \<open>
  Claim C4. On a key that is present, every integer accessor parses the trimmed raw value
  at 64 bits, with \<open>StringToInt64\<close> for the signed and \<open>StringToUint64\<close> for the unsigned
  widths, and converts the number to its own width by keeping the low bits; the flag it
  returns is the parser's, so a number out of range wraps around and is not an error.
  When the raw value is \<open>1234\<close> and the parsers read it as 1234, \<open>Int8\<close> returns
  \<open>(-46, true)\<close> and \<open>Uint8\<close> returns \<open>(210, true)\<close>.
\<close>

theorem narrow_integers_truncate:
  assumes present: "map_index (values c) (Qualify L (Namespace (options c)) key) = Some raw"
    and signed: "StringToInt64 (massage c) (strings_TrimSpace L raw) = (n, ok)"
    and unsigned: "StringToUint64 (massage c) (strings_TrimSpace L raw) = (u, ok')"
  shows "Int8 L c key = Inr (ucast n, ok)
       \<and> sint (ucast n :: int8) = (sint n + 2 ^ 7) mod 2 ^ 8 - 2 ^ 7
       \<and> Int16 L c key = Inr (ucast n, ok)
       \<and> sint (ucast n :: int16) = (sint n + 2 ^ 15) mod 2 ^ 16 - 2 ^ 15
       \<and> Int32 L c key = Inr (ucast n, ok)
       \<and> sint (ucast n :: int32) = (sint n + 2 ^ 31) mod 2 ^ 32 - 2 ^ 31
       \<and> Uint8 L c key = Inr (ucast u, ok')
       \<and> unat (ucast u :: uint8) = unat u mod 2 ^ 8
       \<and> Uint16 L c key = Inr (ucast u, ok')
       \<and> unat (ucast u :: uint16) = unat u mod 2 ^ 16
       \<and> Uint32 L c key = Inr (ucast u, ok')
       \<and> unat (ucast u :: uint32) = unat u mod 2 ^ 32
       \<and> Int' L c key = Inr (ucast n, ok)
       \<and> Uint L c key = Inr (ucast u, ok')
       \<and> (raw = ''1234'' \<and> n = 1234 \<and> ok \<longrightarrow>
            Int8 L c key = Inr (- 46, True) \<and> sint (- 46 :: int8) = - 46)
       \<and> (raw = ''1234'' \<and> u = 1234 \<and> ok' \<longrightarrow>
            Uint8 L c key = Inr (210, True) \<and> unat (210 :: uint8) = 210)"
proof -
  have i8: "Int8 L c key = Inr (ucast n, ok)"
    by (simp add: Int8_present [OF present] signed)
  have i16: "Int16 L c key = Inr (ucast n, ok)"
    by (simp add: Int16_present [OF present] signed)
  have i32: "Int32 L c key = Inr (ucast n, ok)"
    by (simp add: Int32_present [OF present] signed)
  have i: "Int' L c key = Inr (ucast n, ok)"
    by (simp add: Int_present [OF present] signed)
  have u8: "Uint8 L c key = Inr (ucast u, ok')"
    by (simp add: Uint8_present [OF present] unsigned)
  have u16: "Uint16 L c key = Inr (ucast u, ok')"
    by (simp add: Uint16_present [OF present] unsigned)
  have u32: "Uint32 L c key = Inr (ucast u, ok')"
    by (simp add: Uint32_present [OF present] unsigned)
  have u: "Uint L c key = Inr (ucast u, ok')"
    by (simp add: Uint_present [OF present] unsigned)
  have s8: "sint (ucast n :: int8) = (sint n + 2 ^ 7) mod 2 ^ 8 - 2 ^ 7"
    using sint_ucast_wrap [of n, where 'b = 8] by simp
  have s16: "sint (ucast n :: int16) = (sint n + 2 ^ 15) mod 2 ^ 16 - 2 ^ 15"
    using sint_ucast_wrap [of n, where 'b = 16] by simp
  have s32: "sint (ucast n :: int32) = (sint n + 2 ^ 31) mod 2 ^ 32 - 2 ^ 31"
    using sint_ucast_wrap [of n, where 'b = 32] by simp
  have n8: "unat (ucast u :: uint8) = unat u mod 2 ^ 8"
    using unat_ucast_wrap [of u, where 'b = 8] by simp
  have n16: "unat (ucast u :: uint16) = unat u mod 2 ^ 16"
    using unat_ucast_wrap [of u, where 'b = 16] by simp
  have n32: "unat (ucast u :: uint32) = unat u mod 2 ^ 32"
    using unat_ucast_wrap [of u, where 'b = 32] by simp
  have ex8: "raw = ''1234'' \<and> n = 1234 \<and> ok \<longrightarrow>
             Int8 L c key = Inr (- 46, True) \<and> sint (- 46 :: int8) = - 46"
    using i8 by simp
  have exu8: "raw = ''1234'' \<and> u = 1234 \<and> ok' \<longrightarrow>
              Uint8 L c key = Inr (210, True) \<and> unat (210 :: uint8) = 210"
    using u8 by simp
  show ?thesis
    using i8 i16 i32 i u8 u16 u32 u s8 s16 s32 n8 n16 n32 ex8 exu8 by blast
qed

theorem narrow_integers_truncate_witness:
  "map_index (values (sample_loaded store_pairs 5))
     (Qualify sample_library (Namespace (options (sample_loaded store_pairs 5))) ''HTTP_PORT'')
     = Some ''1234''
   \<and> StringToInt64 (massage (sample_loaded store_pairs 5))
       (strings_TrimSpace sample_library ''1234'') = (1234, True)
   \<and> StringToUint64 (massage (sample_loaded store_pairs 5))
       (strings_TrimSpace sample_library ''1234'') = (1234, True)
   \<and> Int8 sample_library (sample_loaded store_pairs 5) ''HTTP_PORT'' = Inr (- 46, True)
   \<and> Uint8 sample_library (sample_loaded store_pairs 5) ''HTTP_PORT'' = Inr (210, True)
   \<and> Int16 sample_library (sample_loaded store_pairs 5) ''HTTP_PORT'' = Inr (1234, True)"
proof -
  have present:
    "map_index (values (sample_loaded store_pairs 5))
       (Qualify sample_library (Namespace (options (sample_loaded store_pairs 5))) ''HTTP_PORT'')
     = Some ''1234''"
    by (simp add: map_index_def sample_loaded_def sample_unloaded_def sample_options_def
        sample_library_def sample_Qualify_def store_pairs_def)
  have signed:
    "StringToInt64 (massage (sample_loaded store_pairs 5))
       (strings_TrimSpace sample_library ''1234'') = (1234, True)"
    by (simp add: sample_loaded_def sample_unloaded_def sample_Massage_def sample_library_def
        sample_TrimSpace_def asciiSpace_def sample_StringToInt64_def digit_def)
  have unsigned:
    "StringToUint64 (massage (sample_loaded store_pairs 5))
       (strings_TrimSpace sample_library ''1234'') = (1234, True)"
    by (simp add: sample_loaded_def sample_unloaded_def sample_Massage_def sample_library_def
        sample_TrimSpace_def asciiSpace_def sample_StringToUint64_def digit_def)
  show ?thesis
    using present signed unsigned narrow_integers_truncate [OF present signed unsigned]
    by simp
qed

section \<open>What refresh stores and what the accessors return\<close>

text \<open>
  The map that \<open>refresh\<close> builds holds, for each key, the value of the last listed pair
  with that key, as listed.
\<close>

lemma updatedValues_map_of:
  "updatedValues pairs m = m ++ map_of (rev (map (\<lambda>pair. (Key pair, Value pair)) pairs))"
proof (induction pairs arbitrary: m)
  case Nil
  show ?case by simp
next
  case (Cons pair pairs)
  have "m(Key pair \<mapsto> Value pair) = m ++ [Key pair \<mapsto> Value pair]"
    by simp
  then show ?case
    by (simp add: Cons.IH map_add_assoc del: map_add_upd)
qed

lemma refresh_applied:
  "lastIndex c < LastIndex meta \<Longrightarrow>
   fst (refresh c (Inr (pairs, meta))) =
     c\<lparr>lastIndex := LastIndex meta, values := Some (updatedValues pairs Map.empty)\<rparr>"
  by (simp add: refresh_def Let_def split: option.split)

text \<open>
  Claim C1. When the qualified key is in the current map with value \<open>raw\<close>, \<open>lookup\<close>
  returns the trimmed value and true; \<open>String\<close> returns it as it is, and every other
  accessor returns what its parser makes of the trimmed value, with true, whenever the
  parser succeeds. The narrower widths convert the parsed number. The value in the map is
  the listed one: \<open>refresh\<close> stores the value of each pair unchanged, so trimming happens
  in \<open>lookup\<close> only.
\<close>

theorem present_values_are_trimmed_then_parsed:
  assumes present: "map_index (values c) (Qualify L (Namespace (options c)) key) = Some raw"
  shows "lookup L c key = (strings_TrimSpace L raw, True)
       \<and> String L c key = Inr (strings_TrimSpace L raw, True)
       \<and> (StringToSlice (massage c) (strings_TrimSpace L raw) = (sl, True) \<longrightarrow>
            StringSlice L c key = Inr (sl, True))
       \<and> (StringToInt64 (massage c) (strings_TrimSpace L raw) = (n, True) \<longrightarrow>
            Int' L c key = Inr (ucast n, True) \<and> Int8 L c key = Inr (ucast n, True)
            \<and> Int16 L c key = Inr (ucast n, True) \<and> Int32 L c key = Inr (ucast n, True)
            \<and> Int64 L c key = Inr (n, True))
       \<and> (StringToUint64 (massage c) (strings_TrimSpace L raw) = (u, True) \<longrightarrow>
            Uint L c key = Inr (ucast u, True) \<and> Uint8 L c key = Inr (ucast u, True)
            \<and> Uint16 L c key = Inr (ucast u, True) \<and> Uint32 L c key = Inr (ucast u, True)
            \<and> Uint64 L c key = Inr (u, True))
       \<and> (StringToFloat64 (massage c) (strings_TrimSpace L raw) = (f, True) \<longrightarrow>
            Float32 L c key = Inr (to_float32 L f, True) \<and> Float64 L c key = Inr (f, True))
       \<and> (StringToBool (massage c) (strings_TrimSpace L raw) = (b, True) \<longrightarrow>
            Bool L c key = Inr (b, True))
       \<and> (StringToDuration (massage c) (strings_TrimSpace L raw) = (d, True) \<longrightarrow>
            Duration L c key = Inr (d, True))
       \<and> (StringToTime (massage c) (strings_TrimSpace L raw) = (t, True) \<longrightarrow>
            Time L c key = Inr (t, True))
       \<and> (lastIndex c0 < LastIndex meta \<longrightarrow>
            values (fst (refresh c0 (Inr (pairs, meta)))) =
              Some (map_of (rev (map (\<lambda>pair. (Key pair, Value pair)) pairs))))"
proof -
  have stored: "lastIndex c0 < LastIndex meta \<longrightarrow>
      values (fst (refresh c0 (Inr (pairs, meta)))) =
        Some (map_of (rev (map (\<lambda>pair. (Key pair, Value pair)) pairs)))"
    by (simp add: refresh_applied updatedValues_map_of)
  have ints: "StringToInt64 (massage c) (strings_TrimSpace L raw) = (n, True) \<longrightarrow>
      Int' L c key = Inr (ucast n, True) \<and> Int8 L c key = Inr (ucast n, True)
      \<and> Int16 L c key = Inr (ucast n, True) \<and> Int32 L c key = Inr (ucast n, True)
      \<and> Int64 L c key = Inr (n, True)"
    by (simp add: Int_present [OF present] Int8_present [OF present]
        Int16_present [OF present] Int32_present [OF present] Int64_present [OF present])
  have uints: "StringToUint64 (massage c) (strings_TrimSpace L raw) = (u, True) \<longrightarrow>
      Uint L c key = Inr (ucast u, True) \<and> Uint8 L c key = Inr (ucast u, True)
      \<and> Uint16 L c key = Inr (ucast u, True) \<and> Uint32 L c key = Inr (ucast u, True)
      \<and> Uint64 L c key = Inr (u, True)"
    by (simp add: Uint_present [OF present] Uint8_present [OF present]
        Uint16_present [OF present] Uint32_present [OF present] Uint64_present [OF present])
  have floats: "StringToFloat64 (massage c) (strings_TrimSpace L raw) = (f, True) \<longrightarrow>
      Float32 L c key = Inr (to_float32 L f, True) \<and> Float64 L c key = Inr (f, True)"
    by (simp add: Float32_present [OF present] Float64_present [OF present])
  have rest: "(StringToSlice (massage c) (strings_TrimSpace L raw) = (sl, True) \<longrightarrow>
        StringSlice L c key = Inr (sl, True))
      \<and> (StringToBool (massage c) (strings_TrimSpace L raw) = (b, True) \<longrightarrow>
        Bool L c key = Inr (b, True))
      \<and> (StringToDuration (massage c) (strings_TrimSpace L raw) = (d, True) \<longrightarrow>
        Duration L c key = Inr (d, True))
      \<and> (StringToTime (massage c) (strings_TrimSpace L raw) = (t, True) \<longrightarrow>
        Time L c key = Inr (t, True))"
    by (simp add: StringSlice_present [OF present] Bool_present [OF present]
        Duration_present [OF present] Time_present [OF present])
  show ?thesis
    using lookup_present [OF present] String_present [OF present] ints uints floats rest stored
    by blast
qed

theorem present_values_are_trimmed_then_parsed_witness:
  "map_index (values (sample_loaded store_pairs 5))
     (Qualify sample_library (Namespace (options (sample_loaded store_pairs 5))) ''PADDED'')
     = Some ''  42 ''
   \<and> strings_TrimSpace sample_library ''  42 '' = ''42''
   \<and> StringToInt64 (massage (sample_loaded store_pairs 5)) ''42'' = (42, True)
   \<and> StringToUint64 (massage (sample_loaded store_pairs 5)) ''42'' = (42, True)
   \<and> lookup sample_library (sample_loaded store_pairs 5) ''PADDED'' = (''42'', True)
   \<and> String sample_library (sample_loaded store_pairs 5) ''PADDED'' = Inr (''42'', True)
   \<and> Int64 sample_library (sample_loaded store_pairs 5) ''PADDED'' = Inr (42, True)
   \<and> Int16 sample_library (sample_loaded store_pairs 5) ''PADDED'' = Inr (42, True)
   \<and> Uint32 sample_library (sample_loaded store_pairs 5) ''PADDED'' = Inr (42, True)
   \<and> lastIndex sample_unloaded < LastIndex \<lparr>LastIndex = 5\<rparr>
   \<and> values (fst (refresh sample_unloaded (Inr (store_pairs, \<lparr>LastIndex = 5\<rparr>)))) =
       Some (map_of (rev (map (\<lambda>pair. (Key pair, Value pair)) store_pairs)))"
proof -
  have present:
    "map_index (values (sample_loaded store_pairs 5))
       (Qualify sample_library (Namespace (options (sample_loaded store_pairs 5))) ''PADDED'')
     = Some ''  42 ''"
    by (simp add: map_index_def sample_loaded_def sample_unloaded_def sample_options_def
        sample_library_def sample_Qualify_def store_pairs_def)
  have trim: "strings_TrimSpace sample_library ''  42 '' = ''42''"
    by (simp add: sample_library_def sample_TrimSpace_def asciiSpace_def)
  have signed: "StringToInt64 (massage (sample_loaded store_pairs 5)) ''42'' = (42, True)"
    by (simp add: sample_loaded_def sample_unloaded_def sample_Massage_def
        sample_StringToInt64_def digit_def)
  have unsigned: "StringToUint64 (massage (sample_loaded store_pairs 5)) ''42'' = (42, True)"
    by (simp add: sample_loaded_def sample_unloaded_def sample_Massage_def
        sample_StringToUint64_def digit_def)
  have newer: "lastIndex sample_unloaded < LastIndex \<lparr>LastIndex = 5\<rparr>"
    by (simp add: sample_unloaded_def)
  show ?thesis
    using present trim signed unsigned newer
      present_values_are_trimmed_then_parsed [OF present, of _ 42 42 _ _ _ _ sample_unloaded
        "\<lparr>LastIndex = 5\<rparr>" store_pairs]
    by simp
qed

text \<open>
  Claim C2. When the qualified key is not in the current map (or there is no map yet),
  every accessor returns the result of the same accessor of the \<open>Defaults\<close> source on the
  unqualified key: the value and the found flag, unchanged.
\<close>

theorem absent_keys_delegate_to_defaults:
  assumes absent: "map_index (values c) (Qualify L (Namespace (options c)) key) = None"
    and defaults: "Defaults (options c) = Some d"
  shows "String L c key = Inr (src_String d key)
       \<and> StringSlice L c key = Inr (src_StringSlice d key)
       \<and> Int' L c key = Inr (src_Int d key)
       \<and> Int8 L c key = Inr (src_Int8 d key)
       \<and> Int16 L c key = Inr (src_Int16 d key)
       \<and> Int32 L c key = Inr (src_Int32 d key)
       \<and> Int64 L c key = Inr (src_Int64 d key)
       \<and> Uint L c key = Inr (src_Uint d key)
       \<and> Uint8 L c key = Inr (src_Uint8 d key)
       \<and> Uint16 L c key = Inr (src_Uint16 d key)
       \<and> Uint32 L c key = Inr (src_Uint32 d key)
       \<and> Uint64 L c key = Inr (src_Uint64 d key)
       \<and> Float32 L c key = Inr (src_Float32 d key)
       \<and> Float64 L c key = Inr (src_Float64 d key)
       \<and> Bool L c key = Inr (src_Bool d key)
       \<and> Duration L c key = Inr (src_Duration d key)
       \<and> Time L c key = Inr (src_Time d key)"
proof -
  have call: "invoke (Defaults (options c)) getter = Inr (getter d)" for getter :: "_ \<Rightarrow> 'x"
    by (simp add: invoke_def defaults)
  show ?thesis
    by (simp only: String_absent [OF absent] StringSlice_absent [OF absent]
        Int_absent [OF absent] Int8_absent [OF absent] Int16_absent [OF absent]
        Int32_absent [OF absent] Int64_absent [OF absent] Uint_absent [OF absent]
        Uint8_absent [OF absent] Uint16_absent [OF absent] Uint32_absent [OF absent]
        Uint64_absent [OF absent] Float32_absent [OF absent] Float64_absent [OF absent]
        Bool_absent [OF absent] Duration_absent [OF absent] Time_absent [OF absent]
        call simp_thms)
qed

theorem absent_keys_delegate_to_defaults_witness:
  "map_index (values sample_with_defaults)
     (Qualify sample_library (Namespace (options sample_with_defaults)) ''HTTP_HOST'') = None
   \<and> Defaults (options sample_with_defaults) = Some sample_Defaults
   \<and> String sample_library sample_with_defaults ''HTTP_HOST'' = Inr (''localhost'', True)
   \<and> Uint16 sample_library sample_with_defaults ''HTTP_HOST'' = Inr (0, False)
   \<and> Bool sample_library sample_with_defaults ''HTTP_HOST'' = Inr (False, False)"
proof -
  have absent:
    "map_index (values sample_with_defaults)
       (Qualify sample_library (Namespace (options sample_with_defaults)) ''HTTP_HOST'') = None"
    by (simp add: map_index_def sample_with_defaults_def sample_unloaded_def)
  have defaults: "Defaults (options sample_with_defaults) = Some sample_Defaults"
    by (simp add: sample_with_defaults_def sample_unloaded_def sample_options_def)
  show ?thesis
    using absent defaults absent_keys_delegate_to_defaults [OF absent defaults]
    by (simp add: sample_Defaults_def sample_Empty_def)
qed

text \<open>
  Claim C3. When the qualified key is in the current map and the parser rejects the
  trimmed value, returning the zero value of its type with false, the accessor returns
  the zero value of its own type with false. The \<open>Defaults\<close> source has no part in the
  result: it is the same for every \<open>Defaults\<close>, nil included. \<open>String\<close> has no parser
  and cannot fail. For \<open>Time\<close> the zero value is whatever \<open>StringToTime\<close> returns beside
  false; for \<open>Float32\<close> it is the conversion of the zero \<open>float64\<close>.
\<close>

theorem unparseable_values_fail_closed:
  assumes present: "map_index (values c) (Qualify L (Namespace (options c)) key) = Some raw"
  shows "(StringToSlice (massage c) (strings_TrimSpace L raw) = ([], False) \<longrightarrow>
            StringSlice L (c\<lparr>options := (options c)\<lparr>Defaults := dflt\<rparr>\<rparr>) key = Inr ([], False))
       \<and> (StringToInt64 (massage c) (strings_TrimSpace L raw) = (0, False) \<longrightarrow>
            Int' L (c\<lparr>options := (options c)\<lparr>Defaults := dflt\<rparr>\<rparr>) key = Inr (0, False)
            \<and> Int8 L (c\<lparr>options := (options c)\<lparr>Defaults := dflt\<rparr>\<rparr>) key = Inr (0, False)
            \<and> Int16 L (c\<lparr>options := (options c)\<lparr>Defaults := dflt\<rparr>\<rparr>) key = Inr (0, False)
            \<and> Int32 L (c\<lparr>options := (options c)\<lparr>Defaults := dflt\<rparr>\<rparr>) key = Inr (0, False)
            \<and> Int64 L (c\<lparr>options := (options c)\<lparr>Defaults := dflt\<rparr>\<rparr>) key = Inr (0, False))
       \<and> (StringToUint64 (massage c) (strings_TrimSpace L raw) = (0, False) \<longrightarrow>
            Uint L (c\<lparr>options := (options c)\<lparr>Defaults := dflt\<rparr>\<rparr>) key = Inr (0, False)
            \<and> Uint8 L (c\<lparr>options := (options c)\<lparr>Defaults := dflt\<rparr>\<rparr>) key = Inr (0, False)
            \<and> Uint16 L (c\<lparr>options := (options c)\<lparr>Defaults := dflt\<rparr>\<rparr>) key = Inr (0, False)
            \<and> Uint32 L (c\<lparr>options := (options c)\<lparr>Defaults := dflt\<rparr>\<rparr>) key = Inr (0, False)
            \<and> Uint64 L (c\<lparr>options := (options c)\<lparr>Defaults := dflt\<rparr>\<rparr>) key = Inr (0, False))
       \<and> (StringToFloat64 (massage c) (strings_TrimSpace L raw) = (0, False) \<longrightarrow>
            Float32 L (c\<lparr>options := (options c)\<lparr>Defaults := dflt\<rparr>\<rparr>) key
              = Inr (to_float32 L 0, False)
            \<and> Float64 L (c\<lparr>options := (options c)\<lparr>Defaults := dflt\<rparr>\<rparr>) key = Inr (0, False))
       \<and> (StringToBool (massage c) (strings_TrimSpace L raw) = (False, False) \<longrightarrow>
            Bool L (c\<lparr>options := (options c)\<lparr>Defaults := dflt\<rparr>\<rparr>) key = Inr (False, False))
       \<and> (StringToDuration (massage c) (strings_TrimSpace L raw) = (0, False) \<longrightarrow>
            Duration L (c\<lparr>options := (options c)\<lparr>Defaults := dflt\<rparr>\<rparr>) key = Inr (0, False))
       \<and> (StringToTime (massage c) (strings_TrimSpace L raw) = (z, False) \<longrightarrow>
            Time L (c\<lparr>options := (options c)\<lparr>Defaults := dflt\<rparr>\<rparr>) key = Inr (z, False))"
proof -
  define c' where "c' = c\<lparr>options := (options c)\<lparr>Defaults := dflt\<rparr>\<rparr>"
  have present': "map_index (values c') (Qualify L (Namespace (options c')) key) = Some raw"
    using present by (simp add: c'_def)
  have m: "massage c' = massage c"
    by (simp add: c'_def)
  have ints: "StringToInt64 (massage c) (strings_TrimSpace L raw) = (0, False) \<longrightarrow>
      Int' L c' key = Inr (0, False) \<and> Int8 L c' key = Inr (0, False)
      \<and> Int16 L c' key = Inr (0, False) \<and> Int32 L c' key = Inr (0, False)
      \<and> Int64 L c' key = Inr (0, False)"
    by (simp add: Int_present [OF present'] Int8_present [OF present']
        Int16_present [OF present'] Int32_present [OF present'] Int64_present [OF present'] m)
  have uints: "StringToUint64 (massage c) (strings_TrimSpace L raw) = (0, False) \<longrightarrow>
      Uint L c' key = Inr (0, False) \<and> Uint8 L c' key = Inr (0, False)
      \<and> Uint16 L c' key = Inr (0, False) \<and> Uint32 L c' key = Inr (0, False)
      \<and> Uint64 L c' key = Inr (0, False)"
    by (simp add: Uint_present [OF present'] Uint8_present [OF present']
        Uint16_present [OF present'] Uint32_present [OF present'] Uint64_present [OF present'] m)
  have floats: "StringToFloat64 (massage c) (strings_TrimSpace L raw) = (0, False) \<longrightarrow>
      Float32 L c' key = Inr (to_float32 L 0, False) \<and> Float64 L c' key = Inr (0, False)"
    by (simp add: Float32_present [OF present'] Float64_present [OF present'] m)
  have rest: "(StringToSlice (massage c) (strings_TrimSpace L raw) = ([], False) \<longrightarrow>
        StringSlice L c' key = Inr ([], False))
      \<and> (StringToBool (massage c) (strings_TrimSpace L raw) = (False, False) \<longrightarrow>
        Bool L c' key = Inr (False, False))
      \<and> (StringToDuration (massage c) (strings_TrimSpace L raw) = (0, False) \<longrightarrow>
        Duration L c' key = Inr (0, False))
      \<and> (StringToTime (massage c) (strings_TrimSpace L raw) = (z, False) \<longrightarrow>
        Time L c' key = Inr (z, False))"
    by (simp add: StringSlice_present [OF present'] Bool_present [OF present']
        Duration_present [OF present'] Time_present [OF present'] m)
  show ?thesis
    using ints uints floats rest unfolding c'_def by blast
qed

theorem unparseable_values_fail_closed_witness:
  "map_index (values (sample_loaded store_pairs 5))
     (Qualify sample_library (Namespace (options (sample_loaded store_pairs 5))) ''HTTP_HOST'')
     = Some ''foo.example.com''
   \<and> StringToInt64 (massage (sample_loaded store_pairs 5))
       (strings_TrimSpace sample_library ''foo.example.com'') = (0, False)
   \<and> StringToBool (massage (sample_loaded store_pairs 5))
       (strings_TrimSpace sample_library ''foo.example.com'') = (False, False)
   \<and> Int8 sample_library
       ((sample_loaded store_pairs 5)
          \<lparr>options := (options (sample_loaded store_pairs 5))\<lparr>Defaults := Some sample_Defaults\<rparr>\<rparr>)
       ''HTTP_HOST'' = Inr (0, False)
   \<and> Bool sample_library
       ((sample_loaded store_pairs 5)
          \<lparr>options := (options (sample_loaded store_pairs 5))\<lparr>Defaults := Some sample_Defaults\<rparr>\<rparr>)
       ''HTTP_HOST'' = Inr (False, False)"
proof -
  have present:
    "map_index (values (sample_loaded store_pairs 5))
       (Qualify sample_library (Namespace (options (sample_loaded store_pairs 5))) ''HTTP_HOST'')
     = Some ''foo.example.com''"
    by (simp add: map_index_def sample_loaded_def sample_unloaded_def sample_options_def
        sample_library_def sample_Qualify_def store_pairs_def)
  have signed:
    "StringToInt64 (massage (sample_loaded store_pairs 5))
       (strings_TrimSpace sample_library ''foo.example.com'') = (0, False)"
    by (simp add: sample_loaded_def sample_unloaded_def sample_Massage_def sample_library_def
        sample_TrimSpace_def asciiSpace_def sample_StringToInt64_def digit_def)
  have bool:
    "StringToBool (massage (sample_loaded store_pairs 5))
       (strings_TrimSpace sample_library ''foo.example.com'') = (False, False)"
    by (simp add: sample_loaded_def sample_unloaded_def sample_Massage_def sample_library_def
        sample_TrimSpace_def asciiSpace_def sample_StringToBool_def)
  show ?thesis
    using present signed bool
      unparseable_values_fail_closed [OF present, of "Some sample_Defaults"]
    by simp
qed

section \<open>Refresh and the background loop\<close>

lemma refresh_error: "refresh c (Inl err) = (c, [])"
  by (simp add: refresh_def)

lemma refresh_stale:
  "LastIndex meta \<le> lastIndex c \<Longrightarrow> refresh c (Inr (pairs, meta)) = (c, [])"
  by (simp add: refresh_def)

lemma refresh_calls:
  "snd (refresh c (Inr (pairs, meta))) =
     (if LastIndex meta \<le> lastIndex c then []
      else case watcher c of
             None \<Rightarrow> []
           | Some callback \<Rightarrow> [(callback, fst (refresh c (Inr (pairs, meta))))])"
  by (simp add: refresh_def Let_def split: option.split)

lemma refresh_lastIndex_mono: "lastIndex c \<le> lastIndex (fst (refresh c listed))"
proof (cases listed)
  case (Inl err)
  then show ?thesis by (simp add: refresh_error)
next
  case (Inr listing)
  obtain pairs meta where listing: "listing = (pairs, meta)"
    by (cases listing)
  show ?thesis
  proof (cases "LastIndex meta \<le> lastIndex c")
    case True
    then show ?thesis by (simp add: Inr listing refresh_stale)
  next
    case False
    then have "lastIndex c < LastIndex meta" by simp
    then show ?thesis by (simp add: Inr listing refresh_applied)
  qed
qed

lemma refresh_keeps_watcher: "watcher (fst (refresh c listed)) = watcher c"
  by (simp add: refresh_def Let_def split: sum.split prod.split option.split)

lemma refresh_without_watcher: "watcher c = None \<Longrightarrow> snd (refresh c listed) = []"
  by (simp add: refresh_def Let_def split: sum.split prod.split)

lemma step_lastIndex_mono: "lastIndex (source g) \<le> lastIndex (source (fst (step g e)))"
  by (cases e) (simp_all add: case_prod_beta refresh_lastIndex_mono)

lemma run_lastIndex_mono: "lastIndex (source g) \<le> lastIndex (source (fst (run g es)))"
proof (induction es arbitrary: g)
  case Nil
  show ?case by simp
next
  case (Cons e es)
  have "lastIndex (source g) \<le> lastIndex (source (fst (step g e)))"
    by (rule step_lastIndex_mono)
  also have "\<dots> \<le> lastIndex (source (fst (run (fst (step g e)) es)))"
    by (rule Cons.IH)
  finally show ?case by (simp add: case_prod_beta)
qed

lemma step_without_watcher:
  "watcher (source g) = None \<Longrightarrow>
   snd (step g e) = [] \<and> watcher (source (fst (step g e))) = None"
  by (cases e) (simp_all add: case_prod_beta refresh_without_watcher refresh_keeps_watcher)

lemma run_without_watcher: "watcher (source g) = None \<Longrightarrow> snd (run g es) = []"
proof (induction es arbitrary: g)
  case Nil
  show ?case by simp
next
  case (Cons e es)
  from step_without_watcher [OF Cons.prems, of e]
  have quiet: "snd (step g e) = []" and still: "watcher (source (fst (step g e))) = None"
    by simp_all
  from Cons.IH [OF still] quiet show ?case
    by (simp add: case_prod_beta)
qed

lemma step_Returned:
  "phase g = Returned \<Longrightarrow>
   snd (step g e) = [] \<and> source (fst (step g e)) = source g \<and> phase (fst (step g e)) = Returned"
  by (cases e) simp_all

lemma run_Returned:
  "phase g = Returned \<Longrightarrow>
   snd (run g es) = [] \<and> source (fst (run g es)) = source g \<and> phase (fst (run g es)) = Returned"
proof (induction es arbitrary: g)
  case Nil
  then show ?case by simp
next
  case (Cons e es)
  from step_Returned [OF Cons.prems, of e]
  have quiet: "snd (step g e) = []" and same: "source (fst (step g e)) = source g"
    and returned: "phase (fst (step g e)) = Returned"
    by simp_all
  from Cons.IH [OF returned] quiet same show ?case
    by (simp add: case_prod_beta)
qed

lemma run_Listing_cancelled:
  "phase g = Listing \<Longrightarrow> cancelled g \<Longrightarrow>
   source (fst (run g es)) =
     (case first_listing es of None \<Rightarrow> source g | Some listed \<Rightarrow> fst (refresh (source g) listed))
   \<and> snd (run g es) =
     (case first_listing es of None \<Rightarrow> [] | Some listed \<Rightarrow> snd (refresh (source g) listed))
   \<and> phase (fst (run g es)) =
     (case first_listing es of None \<Rightarrow> Listing | Some listed \<Rightarrow> Returned)"
proof (induction es arbitrary: g)
  case Nil
  then show ?case by simp
next
  case (Cons e es)
  show ?case
  proof (cases e)
    case Cancel
    have "phase (g\<lparr>cancelled := True\<rparr>) = Listing" and "cancelled (g\<lparr>cancelled := True\<rparr>)"
      using Cons.prems by simp_all
    from Cons.IH [OF this] show ?thesis
      using Cons.prems by (simp add: Cancel case_prod_beta split: option.split)
  next
    case TimerFires
    from Cons.IH [OF Cons.prems] show ?thesis
      using Cons.prems by (simp add: TimerFires case_prod_beta)
  next
    case (ListReturns listed)
    have "phase (g\<lparr>source := fst (refresh (source g) listed), phase := Returned\<rparr>) = Returned"
      by simp
    from run_Returned [OF this, of es] show ?thesis
      using Cons.prems by (simp add: ListReturns case_prod_beta)
  qed
qed

text \<open>
  Claim C5. A listing whose index is not above the index of the source is ignored:
  \<open>refresh\<close> returns the source as it was and calls no watcher. Hence the index of the
  source never decreases, in one \<open>refresh\<close> and along every run of the loop.
\<close>

theorem stale_listing_is_ignored:
  "(LastIndex meta \<le> lastIndex c \<longrightarrow> refresh c (Inr (pairs, meta)) = (c, []))
   \<and> lastIndex c \<le> lastIndex (fst (refresh c listed))
   \<and> lastIndex (source g) \<le> lastIndex (source (fst (step g e)))
   \<and> lastIndex (source g) \<le> lastIndex (source (fst (run g es)))"
  using refresh_stale [of meta c pairs] refresh_lastIndex_mono [of c listed]
    step_lastIndex_mono [of g e] run_lastIndex_mono [of g es]
  by blast

theorem stale_listing_is_ignored_witness:
  "LastIndex \<lparr>LastIndex = 5\<rparr> \<le> lastIndex (sample_loaded store_pairs 5)
   \<and> refresh (sample_loaded store_pairs 5) (Inr (store_pairs_updated, \<lparr>LastIndex = 5\<rparr>))
       = (sample_loaded store_pairs 5, [])
   \<and> LastIndex \<lparr>LastIndex = 3\<rparr> \<le> lastIndex (sample_loaded store_pairs 5)
   \<and> refresh (sample_loaded store_pairs 5) (Inr (store_pairs_updated, \<lparr>LastIndex = 3\<rparr>))
       = (sample_loaded store_pairs 5, [])"
proof -
  have same: "LastIndex \<lparr>LastIndex = 5\<rparr> \<le> lastIndex (sample_loaded store_pairs 5)"
    by (simp add: sample_loaded_def)
  have older: "LastIndex \<lparr>LastIndex = 3\<rparr> \<le> lastIndex (sample_loaded store_pairs 5)"
    by (simp add: sample_loaded_def)
  show ?thesis
    using same older
      stale_listing_is_ignored [of "\<lparr>LastIndex = 5\<rparr>" "sample_loaded store_pairs 5"
        store_pairs_updated "Inl (errors_New ''connection refused'')"
        "fst (listen (sample_loaded store_pairs 5))" Cancel "[]"]
      stale_listing_is_ignored [of "\<lparr>LastIndex = 3\<rparr>" "sample_loaded store_pairs 5"
        store_pairs_updated "Inl (errors_New ''connection refused'')"
        "fst (listen (sample_loaded store_pairs 5))" Cancel "[]"]
    by simp
qed

text \<open>
  Claim C6. When the listing fails, \<open>refresh\<close> returns the source as it was, with its
  map, its index and its watcher, and calls no watcher; it has no error to return. The
  goroutine that \<open>listen\<close> starts waits at its \<open>select\<close>. After a tick whose listing
  fails it waits there again, with the source unchanged and no watcher called: it has not
  returned. Nothing is listed again before the timer fires: a listing that arrives
  without a tick changes nothing. At the next tick the loop calls \<open>refresh\<close> again, and
  what that listing returns is applied to the unchanged source, as if the failed tick had
  not happened.
\<close>

theorem failed_listing_changes_nothing:
  "refresh c (Inl err) = (c, [])
   \<and> step \<lparr>source = c, phase = Listing, cancelled = False\<rparr> (ListReturns (Inl err))
       = (\<lparr>source = c, phase = Selecting, cancelled = False\<rparr>, [])
   \<and> step \<lparr>source = c, phase = Selecting, cancelled = False\<rparr> (ListReturns listed)
       = (\<lparr>source = c, phase = Selecting, cancelled = False\<rparr>, [])
   \<and> step \<lparr>source = c, phase = Selecting, cancelled = False\<rparr> TimerFires
       = (\<lparr>source = c, phase = Listing, cancelled = False\<rparr>, [])
   \<and> run (fst (listen c)) (TimerFires # ListReturns (Inl err) # es) = run (fst (listen c)) es
   \<and> listen c = (\<lparr>source = c, phase = Selecting, cancelled = False\<rparr>, None)
   \<and> run (fst (listen c)) [TimerFires]
       = (\<lparr>source = c, phase = Listing, cancelled = False\<rparr>, [])
   \<and> run (fst (listen c)) [TimerFires, ListReturns (Inl err)]
       = (\<lparr>source = c, phase = Selecting, cancelled = False\<rparr>, [])
   \<and> run (fst (listen c)) [TimerFires, ListReturns (Inl err), ListReturns listed]
       = (\<lparr>source = c, phase = Selecting, cancelled = False\<rparr>, [])
   \<and> run (fst (listen c)) [TimerFires, ListReturns (Inl err), TimerFires, ListReturns listed]
       = (\<lparr>source = fst (refresh c listed), phase = Selecting, cancelled = False\<rparr>,
          snd (refresh c listed))
   \<and> run (fst (listen c))
         (TimerFires # ListReturns (Inl err) # TimerFires # ListReturns listed # es)
       = (fst (run \<lparr>source = fst (refresh c listed), phase = Selecting, cancelled = False\<rparr> es),
          snd (refresh c listed)
            @ snd (run \<lparr>source = fst (refresh c listed), phase = Selecting, cancelled = False\<rparr>
                    es))"
proof -
  have started: "listen c = (\<lparr>source = c, phase = Selecting, cancelled = False\<rparr>, None)"
    by (simp add: listen_def)
  have failed_tick:
    "run \<lparr>source = c, phase = Selecting, cancelled = False\<rparr>
       (TimerFires # ListReturns (Inl err) # rest)
     = run \<lparr>source = c, phase = Selecting, cancelled = False\<rparr> rest" for rest
    by (simp add: refresh_error)
  have good_tick:
    "run \<lparr>source = c, phase = Selecting, cancelled = False\<rparr>
       (TimerFires # ListReturns listed # rest)
     = (fst (run \<lparr>source = fst (refresh c listed), phase = Selecting, cancelled = False\<rparr>
               rest),
        snd (refresh c listed)
          @ snd (run \<lparr>source = fst (refresh c listed), phase = Selecting, cancelled = False\<rparr>
                  rest))" for rest
    by (simp add: case_prod_beta)
  have steps:
    "step \<lparr>source = c, phase = Listing, cancelled = False\<rparr> (ListReturns (Inl err))
       = (\<lparr>source = c, phase = Selecting, cancelled = False\<rparr>, [])
     \<and> step \<lparr>source = c, phase = Selecting, cancelled = False\<rparr> (ListReturns listed)
       = (\<lparr>source = c, phase = Selecting, cancelled = False\<rparr>, [])
     \<and> step \<lparr>source = c, phase = Selecting, cancelled = False\<rparr> TimerFires
       = (\<lparr>source = c, phase = Listing, cancelled = False\<rparr>, [])"
    by (simp add: refresh_error)
  have first_tick:
    "run \<lparr>source = c, phase = Selecting, cancelled = False\<rparr> [TimerFires]
       = (\<lparr>source = c, phase = Listing, cancelled = False\<rparr>, [])"
    by simp
  have stray:
    "run \<lparr>source = c, phase = Selecting, cancelled = False\<rparr> [ListReturns listed]
       = (\<lparr>source = c, phase = Selecting, cancelled = False\<rparr>, [])"
    by simp
  have retry:
    "run \<lparr>source = c, phase = Selecting, cancelled = False\<rparr> [TimerFires, ListReturns listed]
       = (\<lparr>source = fst (refresh c listed), phase = Selecting, cancelled = False\<rparr>,
          snd (refresh c listed))"
    using good_tick [of "[]"] by simp
  have nothing:
    "run \<lparr>source = c, phase = Selecting, cancelled = False\<rparr> []
       = (\<lparr>source = c, phase = Selecting, cancelled = False\<rparr>, [])"
    by simp
  show ?thesis
    unfolding started fst_conv failed_tick
    using refresh_error [of c err] steps first_tick stray retry nothing good_tick [of es]
    by simp
qed

theorem failed_listing_changes_nothing_witness:
  "refresh (sample_loaded store_pairs 5) (Inl (errors_New ''connection refused''))
     = (sample_loaded store_pairs 5, [])
   \<and> run (fst (listen (sample_loaded store_pairs 5)))
        [TimerFires, ListReturns (Inl (errors_New ''connection refused''))]
     = (\<lparr>source = sample_loaded store_pairs 5, phase = Selecting, cancelled = False\<rparr>, [])
   \<and> run (fst (listen (sample_loaded store_pairs 5)))
        [TimerFires, ListReturns (Inl (errors_New ''connection refused'')),
         ListReturns (Inr (store_pairs_updated, \<lparr>LastIndex = 6\<rparr>))]
     = (\<lparr>source = sample_loaded store_pairs 5, phase = Selecting, cancelled = False\<rparr>, [])
   \<and> run (fst (listen (sample_loaded store_pairs 5)))
        [TimerFires, ListReturns (Inl (errors_New ''connection refused'')),
         TimerFires, ListReturns (Inr (store_pairs_updated, \<lparr>LastIndex = 6\<rparr>))]
     = (\<lparr>source = sample_loaded store_pairs_updated 6, phase = Selecting, cancelled = False\<rparr>,
        [])
   \<and> String sample_library (sample_loaded store_pairs 5) ''HTTP_HOST''
     = Inr (''foo.example.com'', True)
   \<and> String sample_library (sample_loaded store_pairs_updated 6) ''HTTP_HOST''
     = Inr (''google.com'', True)"
proof -
  note inst = failed_listing_changes_nothing [of "sample_loaded store_pairs 5"
      "errors_New ''connection refused''" "Inr (store_pairs_updated, \<lparr>LastIndex = 6\<rparr>)" "[]"]
  have applied:
    "refresh (sample_loaded store_pairs 5) (Inr (store_pairs_updated, \<lparr>LastIndex = 6\<rparr>))
     = (sample_loaded store_pairs_updated 6, [])"
    by (simp add: refresh_def Let_def sample_loaded_def sample_unloaded_def)
  have unchanged:
    "refresh (sample_loaded store_pairs 5) (Inl (errors_New ''connection refused''))
       = (sample_loaded store_pairs 5, [])"
    using inst by blast
  have waiting:
    "run (fst (listen (sample_loaded store_pairs 5)))
        [TimerFires, ListReturns (Inl (errors_New ''connection refused''))]
     = (\<lparr>source = sample_loaded store_pairs 5, phase = Selecting, cancelled = False\<rparr>, [])"
    using inst by blast
  have stray:
    "run (fst (listen (sample_loaded store_pairs 5)))
        [TimerFires, ListReturns (Inl (errors_New ''connection refused'')),
         ListReturns (Inr (store_pairs_updated, \<lparr>LastIndex = 6\<rparr>))]
     = (\<lparr>source = sample_loaded store_pairs 5, phase = Selecting, cancelled = False\<rparr>, [])"
    using inst by blast
  have retried:
    "run (fst (listen (sample_loaded store_pairs 5)))
        [TimerFires, ListReturns (Inl (errors_New ''connection refused'')),
         TimerFires, ListReturns (Inr (store_pairs_updated, \<lparr>LastIndex = 6\<rparr>))]
     = (\<lparr>source = fst (refresh (sample_loaded store_pairs 5)
                         (Inr (store_pairs_updated, \<lparr>LastIndex = 6\<rparr>))),
          phase = Selecting, cancelled = False\<rparr>,
        snd (refresh (sample_loaded store_pairs 5)
               (Inr (store_pairs_updated, \<lparr>LastIndex = 6\<rparr>))))"
    using inst by blast
  have before:
    "map_index (values (sample_loaded store_pairs 5))
       (Qualify sample_library (Namespace (options (sample_loaded store_pairs 5))) ''HTTP_HOST'')
     = Some ''foo.example.com''"
    by (simp add: map_index_def sample_loaded_def sample_unloaded_def sample_options_def
        sample_library_def sample_Qualify_def store_pairs_def)
  have after:
    "map_index (values (sample_loaded store_pairs_updated 6))
       (Qualify sample_library (Namespace (options (sample_loaded store_pairs_updated 6)))
          ''HTTP_HOST'')
     = Some ''google.com''"
    by (simp add: map_index_def sample_loaded_def sample_unloaded_def sample_options_def
        sample_library_def sample_Qualify_def store_pairs_updated_def)
  have trim:
    "strings_TrimSpace sample_library ''foo.example.com'' = ''foo.example.com''"
    "strings_TrimSpace sample_library ''google.com'' = ''google.com''"
    by (simp_all add: sample_library_def sample_TrimSpace_def asciiSpace_def)
  show ?thesis
    using unchanged waiting stray retried
    by (simp add: applied String_present [OF before] String_present [OF after] trim)
qed

text \<open>
  Claim C10. \<open>Watch\<close> stores its argument in the watcher field, whatever was there, and
  changes nothing else. \<open>refresh\<close> calls nothing when the field is nil. So after
  \<open>Watch(nil)\<close>, on a source with a callback registered or not, no refresh and no run of
  the loop calls a watcher.
\<close>

theorem Watch_nil_unsubscribes:
  "Watch c callback = c\<lparr>watcher := callback\<rparr>
   \<and> watcher (Watch (Watch c (Some registered)) callback) = callback
   \<and> snd (refresh (Watch (Watch c (Some registered)) None) listed) = []
   \<and> watcher (fst (refresh (Watch (Watch c (Some registered)) None) listed)) = None
   \<and> snd (run \<lparr>source = Watch (Watch c (Some registered)) None, phase = p, cancelled = d\<rparr> es)
       = []
   \<and> snd (run \<lparr>source = Watch c None, phase = p, cancelled = d\<rparr> es) = []"
proof -
  have nil: "watcher (Watch c' None) = None" for c' :: "('a, 'b, 'c, 'd) consulSource"
    by (simp add: Watch_def)
  have "snd (run \<lparr>source = Watch c' None, phase = p, cancelled = d\<rparr> es) = []"
    for c' :: "('a, 'b, 'c, 'd) consulSource"
    by (rule run_without_watcher) (simp add: nil)
  then show ?thesis
    by (simp add: refresh_without_watcher refresh_keeps_watcher nil) (simp add: Watch_def)
qed

theorem Watch_nil_unsubscribes_witness:
  "refresh (Watch (sample_loaded store_pairs 5) (Some 7))
      (Inr (store_pairs_updated, \<lparr>LastIndex = 6\<rparr>))
     = (Watch (sample_loaded store_pairs_updated 6) (Some 7),
        [(7, Watch (sample_loaded store_pairs_updated 6) (Some 7))])
   \<and> refresh (Watch (Watch (sample_loaded store_pairs 5) (Some 7)) None)
      (Inr (store_pairs_updated, \<lparr>LastIndex = 6\<rparr>))
     = (sample_loaded store_pairs_updated 6, [])
   \<and> snd (run \<lparr>source = Watch (Watch (sample_loaded store_pairs 5) (Some 7)) None,
                phase = Selecting, cancelled = False\<rparr>
        [TimerFires, ListReturns (Inr (store_pairs_updated, \<lparr>LastIndex = 6\<rparr>))]) = []"
  using Watch_nil_unsubscribes [of "sample_loaded store_pairs 5" None 7
      "Inr (store_pairs_updated, \<lparr>LastIndex = 6\<rparr>)" Selecting False
      "[TimerFires, ListReturns (Inr (store_pairs_updated, \<lparr>LastIndex = 6\<rparr>))]"]
  by (simp add: refresh_def Let_def Watch_def sample_loaded_def sample_unloaded_def)

section \<open>Construction and the first load\<close>

lemma NewSource_sample_loaded:
  "NewSource sample_library sample_opts (Inr (store_pairs, \<lparr>LastIndex = 5\<rparr>)) =
   ((Some (sample_loaded store_pairs 5), None), [])"
  by (simp add: NewSource_def default_Options_def apply_def sample_opts_def
      configify_Context_def configify_Address_def configify_Namespace_def
      configify_NamespaceDelim_def sample_library_def sample_NewClient_def toConsulConfig_def
      refresh_def listen_def sample_loaded_def sample_unloaded_def sample_options_def)

lemma NewSource_sample_unloaded:
  "NewSource sample_library sample_opts (Inl (errors_New ''connection refused'')) =
   ((Some sample_unloaded, None), [])"
  by (simp add: NewSource_def default_Options_def apply_def sample_opts_def
      configify_Context_def configify_Address_def configify_Namespace_def
      configify_NamespaceDelim_def sample_library_def sample_NewClient_def toConsulConfig_def
      refresh_def listen_def sample_unloaded_def sample_options_def)

lemma NewSource_calls: "snd (NewSource L opts first) = []"
  by (simp add: NewSource_def Let_def case_prod_beta refresh_without_watcher split: sum.split)

lemma NewSource_watcher:
  "fst (fst (NewSource L opts first)) = Some c \<Longrightarrow> watcher c = None"
  by (auto simp: NewSource_def Let_def case_prod_beta refresh_keeps_watcher
      split: sum.splits if_splits)

lemma NewSource_Client_calls: "snd (NewSource_Client L opts first) = []"
  by (simp add: NewSource_Client_def Let_def case_prod_beta refresh_without_watcher
      split: option.split)

text \<open>
  Claim C7, as the source has it. \<open>refresh\<close> calls the watcher when it has replaced the
  map and a callback is registered at that moment, once, with the source it has just
  updated; it does not ask whether a map existed before. No callback can be registered
  while \<open>NewSource\<close> runs, so the load at construction calls nothing and leaves the
  watcher nil. Afterwards each refresh whose listing has a higher index calls the
  registered callback exactly once, and every other refresh calls nothing.
\<close>

theorem watcher_fires_once_per_applied_refresh:
  "snd (NewSource L opts first) = []
   \<and> (fst (fst (NewSource L opts first)) = Some created \<longrightarrow> watcher created = None)
   \<and> snd (refresh c (Inl err)) = []
   \<and> snd (refresh c (Inr (pairs, meta))) =
       (if LastIndex meta \<le> lastIndex c then []
        else case watcher c of
               None \<Rightarrow> []
             | Some callback \<Rightarrow> [(callback, fst (refresh c (Inr (pairs, meta))))])
   \<and> (lastIndex c < LastIndex meta \<longrightarrow>
        fst (refresh c (Inr (pairs, meta))) =
          c\<lparr>lastIndex := LastIndex meta, values := Some (updatedValues pairs Map.empty)\<rparr>)"
  using NewSource_calls [of L opts first] NewSource_watcher [of L opts first created]
    refresh_error [of c err] refresh_calls [of c pairs meta] refresh_applied [of c meta pairs]
  by simp

theorem watcher_fires_once_per_applied_refresh_witness:
  "(snd (NewSource sample_library sample_opts (Inr (store_pairs, \<lparr>LastIndex = 5\<rparr>)))
      :: (64, nat, nat, unit) watcher_call list) = []
   \<and> fst (fst (NewSource sample_library sample_opts (Inr (store_pairs, \<lparr>LastIndex = 5\<rparr>))))
       = Some (sample_loaded store_pairs 5)
   \<and> watcher (sample_loaded store_pairs 5) = None
   \<and> lastIndex (Watch (sample_loaded store_pairs 5) (Some 7)) < LastIndex \<lparr>LastIndex = 6\<rparr>
   \<and> refresh (Watch (sample_loaded store_pairs 5) (Some 7))
        (Inr (store_pairs_updated, \<lparr>LastIndex = 6\<rparr>))
       = (Watch (sample_loaded store_pairs_updated 6) (Some 7),
          [(7, Watch (sample_loaded store_pairs_updated 6) (Some 7))])
   \<and> snd (refresh (Watch (sample_loaded store_pairs_updated 6) (Some 7))
        (Inr (store_pairs_updated, \<lparr>LastIndex = 6\<rparr>))) = []"
proof -
  have created:
    "fst (fst (NewSource sample_library sample_opts (Inr (store_pairs, \<lparr>LastIndex = 5\<rparr>))))
     = Some (sample_loaded store_pairs 5)"
    by (simp add: NewSource_sample_loaded)
  have newer:
    "lastIndex (Watch (sample_loaded store_pairs 5) (Some (7::nat))) < LastIndex \<lparr>LastIndex = 6\<rparr>"
    by (simp add: Watch_def sample_loaded_def)
  have fired:
    "refresh (Watch (sample_loaded store_pairs 5) (Some (7::nat)))
        (Inr (store_pairs_updated, \<lparr>LastIndex = 6\<rparr>))
       = (Watch (sample_loaded store_pairs_updated 6) (Some 7),
          [(7, Watch (sample_loaded store_pairs_updated 6) (Some 7))])"
    by (simp add: refresh_def Let_def Watch_def sample_loaded_def sample_unloaded_def)
  have quiet:
    "snd (refresh (Watch (sample_loaded store_pairs_updated 6) (Some (7::nat)))
        (Inr (store_pairs_updated, \<lparr>LastIndex = 6\<rparr>))) = []"
    by (simp add: refresh_def Watch_def sample_loaded_def sample_unloaded_def)
  note first = watcher_fires_once_per_applied_refresh
      [of sample_library sample_opts "Inr (store_pairs, \<lparr>LastIndex = 5\<rparr>)"
        "sample_loaded store_pairs 5" "Watch (sample_loaded store_pairs 5) (Some (7::nat))"
        "errors_New ''connection refused''" store_pairs_updated "\<lparr>LastIndex = 6\<rparr>"]
  have calls:
    "(snd (NewSource sample_library sample_opts (Inr (store_pairs, \<lparr>LastIndex = 5\<rparr>)))
        :: (64, nat, nat, unit) watcher_call list) = []"
    using first by blast
  have nil: "watcher (sample_loaded store_pairs 5) = None"
    using first created by blast
  show ?thesis
    using calls nil created newer fired quiet by simp
qed

text \<open>
  The claim as written asks for more: that the watcher is called only if a map existed
  before the refresh. When the first listing fails, \<open>NewSource\<close> still returns a source,
  with no map and index 0. A callback registered on it is called by the first refresh
  that succeeds, in the loop as well.
\<close>

theorem watcher_fires_without_previous_snapshot:
  "NewSource sample_library sample_opts (Inl (errors_New ''connection refused''))
     = ((Some sample_unloaded, None), [])
   \<and> values (Watch sample_unloaded (Some 7)) = None
   \<and> lastIndex (Watch sample_unloaded (Some 7)) = 0
   \<and> refresh (Watch sample_unloaded (Some 7)) (Inr (store_pairs, \<lparr>LastIndex = 5\<rparr>))
       = (Watch (sample_loaded store_pairs 5) (Some 7),
          [(7, Watch (sample_loaded store_pairs 5) (Some 7))])
   \<and> snd (run (fst (listen (Watch sample_unloaded (Some 7))))
             [TimerFires, ListReturns (Inr (store_pairs, \<lparr>LastIndex = 5\<rparr>))])
       = [(7, Watch (sample_loaded store_pairs 5) (Some 7))]"
  by (simp add: NewSource_sample_unloaded)
     (simp add: Watch_def sample_loaded_def sample_unloaded_def refresh_def Let_def listen_def)

section \<open>Cancellation\<close>

text \<open>
  Claim C8, as the source has it. Cancellation acts at the \<open>select\<close>. A goroutine that
  has returned stays returned: no event changes the source or calls a watcher any more.
  A goroutine waiting in the \<open>select\<close> returns when the context is cancelled, so the
  source stays as it was at that moment, whatever is listed or elapses afterwards, and
  every accessor keeps reading that map. A goroutine that is waiting for a listing when
  the context is cancelled is not interrupted: the \<open>refresh\<close> under way completes with
  the first listing to arrive, which may replace the map and call the watcher once, and
  the goroutine returns at the \<open>select\<close> that follows.
\<close>

theorem cancellation_ends_the_loop:
  "snd (run \<lparr>source = c, phase = Returned, cancelled = d\<rparr> es) = []
   \<and> source (fst (run \<lparr>source = c, phase = Returned, cancelled = d\<rparr> es)) = c
   \<and> phase (fst (run \<lparr>source = c, phase = Returned, cancelled = d\<rparr> es)) = Returned
   \<and> snd (run \<lparr>source = c, phase = Selecting, cancelled = d\<rparr> (Cancel # es)) = []
   \<and> source (fst (run \<lparr>source = c, phase = Selecting, cancelled = d\<rparr> (Cancel # es))) = c
   \<and> phase (fst (run \<lparr>source = c, phase = Selecting, cancelled = d\<rparr> (Cancel # es))) = Returned
   \<and> String L (source (fst (run \<lparr>source = c, phase = Selecting, cancelled = d\<rparr> (Cancel # es))))
        key = String L c key
   \<and> Int64 L (source (fst (run \<lparr>source = c, phase = Selecting, cancelled = d\<rparr> (Cancel # es))))
        key = Int64 L c key
   \<and> Bool L (source (fst (run \<lparr>source = c, phase = Selecting, cancelled = d\<rparr> (Cancel # es))))
        key = Bool L c key
   \<and> source (fst (run \<lparr>source = c, phase = Listing, cancelled = d\<rparr> (Cancel # es))) =
       (case first_listing es of None \<Rightarrow> c | Some listed \<Rightarrow> fst (refresh c listed))
   \<and> snd (run \<lparr>source = c, phase = Listing, cancelled = d\<rparr> (Cancel # es)) =
       (case first_listing es of None \<Rightarrow> [] | Some listed \<Rightarrow> snd (refresh c listed))
   \<and> phase (fst (run \<lparr>source = c, phase = Listing, cancelled = d\<rparr> (Cancel # es))) =
       (case first_listing es of None \<Rightarrow> Listing | Some listed \<Rightarrow> Returned)"
proof -
  have returned:
    "snd (run \<lparr>source = c, phase = Returned, cancelled = d'\<rparr> es) = []
     \<and> source (fst (run \<lparr>source = c, phase = Returned, cancelled = d'\<rparr> es)) = c
     \<and> phase (fst (run \<lparr>source = c, phase = Returned, cancelled = d'\<rparr> es)) = Returned"
    for d'
    using run_Returned [of "\<lparr>source = c, phase = Returned, cancelled = d'\<rparr>" es] by simp
  have selecting:
    "run \<lparr>source = c, phase = Selecting, cancelled = d\<rparr> (Cancel # es) =
     run \<lparr>source = c, phase = Returned, cancelled = True\<rparr> es"
    by (simp add: case_prod_beta)
  have listing:
    "run \<lparr>source = c, phase = Listing, cancelled = d\<rparr> (Cancel # es) =
     run \<lparr>source = c, phase = Listing, cancelled = True\<rparr> es"
    by (simp add: case_prod_beta)
  have in_flight:
    "source (fst (run \<lparr>source = c, phase = Listing, cancelled = True\<rparr> es)) =
       (case first_listing es of None \<Rightarrow> c | Some listed \<Rightarrow> fst (refresh c listed))
     \<and> snd (run \<lparr>source = c, phase = Listing, cancelled = True\<rparr> es) =
       (case first_listing es of None \<Rightarrow> [] | Some listed \<Rightarrow> snd (refresh c listed))
     \<and> phase (fst (run \<lparr>source = c, phase = Listing, cancelled = True\<rparr> es)) =
       (case first_listing es of None \<Rightarrow> Listing | Some listed \<Rightarrow> Returned)"
    using run_Listing_cancelled [of "\<lparr>source = c, phase = Listing, cancelled = True\<rparr>" es]
    by (simp split: option.split)
  show ?thesis
    using returned [of d] returned [of True] in_flight
    by (simp only: selecting listing simp_thms)
qed

theorem cancellation_ends_the_loop_witness:
  "run (fst (listen (sample_loaded store_pairs 5)))
       [Cancel, TimerFires, ListReturns (Inr (store_pairs_updated, \<lparr>LastIndex = 6\<rparr>))]
     = (\<lparr>source = sample_loaded store_pairs 5, phase = Returned, cancelled = True\<rparr>, [])
   \<and> String sample_library
        (source (fst (run (fst (listen (sample_loaded store_pairs 5)))
           [Cancel, TimerFires, ListReturns (Inr (store_pairs_updated, \<lparr>LastIndex = 6\<rparr>))])))
        ''HTTP_HOST''
     = String sample_library (sample_loaded store_pairs 5) ''HTTP_HOST''
   \<and> String sample_library (sample_loaded store_pairs 5) ''HTTP_HOST''
     = Inr (''foo.example.com'', True)"
proof -
  have frozen:
    "String sample_library
        (source (fst (run (fst (listen (sample_loaded store_pairs 5)))
           [Cancel, TimerFires, ListReturns (Inr (store_pairs_updated, \<lparr>LastIndex = 6\<rparr>))])))
        ''HTTP_HOST''
     = String sample_library (sample_loaded store_pairs 5) ''HTTP_HOST''"
    using cancellation_ends_the_loop [of "sample_loaded store_pairs 5" False
        "[TimerFires, ListReturns (Inr (store_pairs_updated, \<lparr>LastIndex = 6\<rparr>))]"
        sample_library "''HTTP_HOST''"]
    by (simp only: listen_def fst_conv)
  have present:
    "map_index (values (sample_loaded store_pairs 5))
       (Qualify sample_library (Namespace (options (sample_loaded store_pairs 5))) ''HTTP_HOST'')
     = Some ''foo.example.com''"
    by (simp add: map_index_def sample_loaded_def sample_unloaded_def sample_options_def
        sample_library_def sample_Qualify_def store_pairs_def)
  have host:
    "String sample_library (sample_loaded store_pairs 5) ''HTTP_HOST''
     = Inr (''foo.example.com'', True)"
    by (simp add: String_present [OF present])
       (simp add: sample_library_def sample_TrimSpace_def asciiSpace_def)
  have ran:
    "run (fst (listen (sample_loaded store_pairs 5)))
       [Cancel, TimerFires, ListReturns (Inr (store_pairs_updated, \<lparr>LastIndex = 6\<rparr>))]
     = (\<lparr>source = sample_loaded store_pairs 5, phase = Returned, cancelled = True\<rparr>, [])"
    by (simp add: listen_def)
  show ?thesis
    using frozen host ran by simp
qed

text \<open>
  The claim as written covers every moment after the cancellation signal. The source
  below was loaded at index 5. The timer fires and the loop starts a listing; the context
  is cancelled while the listing is under way; the listing returns the updated store at
  index 6. The map is replaced after the cancellation, and \<open>String\<close> then returns the
  updated host, not the one of the map applied before the cancellation.
\<close>

theorem refresh_under_way_survives_cancellation:
  "run (fst (listen (sample_loaded store_pairs 5))) [TimerFires, Cancel]
     = (\<lparr>source = sample_loaded store_pairs 5, phase = Listing, cancelled = True\<rparr>, [])
   \<and> run (fst (listen (sample_loaded store_pairs 5)))
       [TimerFires, Cancel, ListReturns (Inr (store_pairs_updated, \<lparr>LastIndex = 6\<rparr>))]
     = (\<lparr>source = sample_loaded store_pairs_updated 6, phase = Returned, cancelled = True\<rparr>, [])
   \<and> String sample_library (sample_loaded store_pairs 5) ''HTTP_HOST''
     = Inr (''foo.example.com'', True)
   \<and> String sample_library (sample_loaded store_pairs_updated 6) ''HTTP_HOST''
     = Inr (''google.com'', True)"
proof -
  have before:
    "map_index (values (sample_loaded store_pairs 5))
       (Qualify sample_library (Namespace (options (sample_loaded store_pairs 5))) ''HTTP_HOST'')
     = Some ''foo.example.com''"
    by (simp add: map_index_def sample_loaded_def sample_unloaded_def sample_options_def
        sample_library_def sample_Qualify_def store_pairs_def)
  have after:
    "map_index (values (sample_loaded store_pairs_updated 6))
       (Qualify sample_library (Namespace (options (sample_loaded store_pairs_updated 6)))
          ''HTTP_HOST'')
     = Some ''google.com''"
    by (simp add: map_index_def sample_loaded_def sample_unloaded_def sample_options_def
        sample_library_def sample_Qualify_def store_pairs_updated_def)
  have trim:
    "strings_TrimSpace sample_library ''foo.example.com'' = ''foo.example.com''"
    "strings_TrimSpace sample_library ''google.com'' = ''google.com''"
    by (simp_all add: sample_library_def sample_TrimSpace_def asciiSpace_def)
  have ran:
    "run (fst (listen (sample_loaded store_pairs 5))) [TimerFires, Cancel]
       = (\<lparr>source = sample_loaded store_pairs 5, phase = Listing, cancelled = True\<rparr>, [])"
    "run (fst (listen (sample_loaded store_pairs 5)))
       [TimerFires, Cancel, ListReturns (Inr (store_pairs_updated, \<lparr>LastIndex = 6\<rparr>))]
     = (\<lparr>source = sample_loaded store_pairs_updated 6, phase = Returned, cancelled = True\<rparr>, [])"
    by (simp_all add: listen_def refresh_def Let_def sample_loaded_def sample_unloaded_def)
  show ?thesis
    using ran by (simp add: String_present [OF before] String_present [OF after] trim)
qed

section \<open>When construction fails\<close>

lemma NewSource_result:
  "fst (NewSource L opts first) =
     (if Context (apply opts (default_Options L)) = None
      then (None, Some (errors_New ''consul source: missing context option''))
      else if Address (apply opts (default_Options L)) = ''''
      then (None, Some (errors_New ''consul source: missing address option''))
      else case api_NewClient L (toConsulConfig L (apply opts (default_Options L))) of
             Inl err \<Rightarrow> (None, Some (errors_Wrapf err ''consul source: connect error''))
           | Inr cl \<Rightarrow>
               (Some (fst (refresh
                  \<lparr>client = cl, kv = KV cl, options = apply opts (default_Options L),
                   massage = configify_Massage L, values = None, lastIndex = 0,
                   watcher = None\<rparr> first)), None))"
  by (simp add: NewSource_def Let_def case_prod_beta listen_def split: sum.split)

lemma unloaded_absent: "values c = None \<Longrightarrow> map_index (values c) k = None"
  by (simp add: map_index_def)

text \<open>
  The earlier \<open>NewSource\<close> of \<open>consul.go\<close> fails exactly when the context or the client
  is nil; a failed first listing does not make it fail either.
\<close>

lemma NewSource_Client_fails_iff:
  "(fst (fst (NewSource_Client L opts first)) = None
      \<and> snd (fst (NewSource_Client L opts first)) \<noteq> None)
   = (Context opts = None \<or> Client opts = None)"
  by (simp add: NewSource_Client_def Let_def case_prod_beta listen_def split: option.split)

text \<open>
  Claim C9. \<open>NewSource\<close> returns an error and no source exactly when, in the options
  after all option functions have been applied, the context is nil, or the address is
  empty, or \<open>api.NewClient\<close> rejects the configuration made from them; otherwise it
  returns a source and no error. The first listing has no part in this: when it fails,
  the source is returned with no map, index 0 and no watcher, and on such a source every
  accessor answers from the \<open>Defaults\<close> source.
\<close>

theorem NewSource_fails_only_on_bad_options:
  "((fst (fst (NewSource L opts first)) = None \<and> snd (fst (NewSource L opts first)) \<noteq> None)
      = (Context (apply opts (default_Options L)) = None
         \<or> Address (apply opts (default_Options L)) = ''''
         \<or> isl (api_NewClient L (toConsulConfig L (apply opts (default_Options L))))))
   \<and> ((fst (fst (NewSource L opts first)) \<noteq> None \<and> snd (fst (NewSource L opts first)) = None)
      = (\<not> (Context (apply opts (default_Options L)) = None
         \<or> Address (apply opts (default_Options L)) = ''''
         \<or> isl (api_NewClient L (toConsulConfig L (apply opts (default_Options L)))))))
   \<and> (Context (apply opts (default_Options L)) \<noteq> None
        \<and> Address (apply opts (default_Options L)) \<noteq> ''''
        \<and> api_NewClient L (toConsulConfig L (apply opts (default_Options L))) = Inr cl \<longrightarrow>
        NewSource L opts (Inl err) =
          ((Some \<lparr>client = cl, kv = KV cl, options = apply opts (default_Options L),
                  massage = configify_Massage L, values = None, lastIndex = 0,
                  watcher = None\<rparr>, None), []))
   \<and> (values c = None \<longrightarrow>
        String L c key = invoke (Defaults (options c)) (\<lambda>d. src_String d key)
        \<and> StringSlice L c key = invoke (Defaults (options c)) (\<lambda>d. src_StringSlice d key)
        \<and> Int' L c key = invoke (Defaults (options c)) (\<lambda>d. src_Int d key)
        \<and> Int8 L c key = invoke (Defaults (options c)) (\<lambda>d. src_Int8 d key)
        \<and> Int16 L c key = invoke (Defaults (options c)) (\<lambda>d. src_Int16 d key)
        \<and> Int32 L c key = invoke (Defaults (options c)) (\<lambda>d. src_Int32 d key)
        \<and> Int64 L c key = invoke (Defaults (options c)) (\<lambda>d. src_Int64 d key)
        \<and> Uint L c key = invoke (Defaults (options c)) (\<lambda>d. src_Uint d key)
        \<and> Uint8 L c key = invoke (Defaults (options c)) (\<lambda>d. src_Uint8 d key)
        \<and> Uint16 L c key = invoke (Defaults (options c)) (\<lambda>d. src_Uint16 d key)
        \<and> Uint32 L c key = invoke (Defaults (options c)) (\<lambda>d. src_Uint32 d key)
        \<and> Uint64 L c key = invoke (Defaults (options c)) (\<lambda>d. src_Uint64 d key)
        \<and> Float32 L c key = invoke (Defaults (options c)) (\<lambda>d. src_Float32 d key)
        \<and> Float64 L c key = invoke (Defaults (options c)) (\<lambda>d. src_Float64 d key)
        \<and> Bool L c key = invoke (Defaults (options c)) (\<lambda>d. src_Bool d key)
        \<and> Duration L c key = invoke (Defaults (options c)) (\<lambda>d. src_Duration d key)
        \<and> Time L c key = invoke (Defaults (options c)) (\<lambda>d. src_Time d key))"
proof -
  have fails:
    "(fst (fst (NewSource L opts first)) = None \<and> snd (fst (NewSource L opts first)) \<noteq> None)
      = (Context (apply opts (default_Options L)) = None
         \<or> Address (apply opts (default_Options L)) = ''''
         \<or> isl (api_NewClient L (toConsulConfig L (apply opts (default_Options L)))))"
    by (simp add: NewSource_result split: sum.split)
  have succeeds:
    "(fst (fst (NewSource L opts first)) \<noteq> None \<and> snd (fst (NewSource L opts first)) = None)
      = (\<not> (Context (apply opts (default_Options L)) = None
         \<or> Address (apply opts (default_Options L)) = ''''
         \<or> isl (api_NewClient L (toConsulConfig L (apply opts (default_Options L))))))"
    by (simp add: NewSource_result split: sum.split)
  have unreachable:
    "Context (apply opts (default_Options L)) \<noteq> None
        \<and> Address (apply opts (default_Options L)) \<noteq> ''''
        \<and> api_NewClient L (toConsulConfig L (apply opts (default_Options L))) = Inr cl \<longrightarrow>
        NewSource L opts (Inl err) =
          ((Some \<lparr>client = cl, kv = KV cl, options = apply opts (default_Options L),
                  massage = configify_Massage L, values = None, lastIndex = 0,
                  watcher = None\<rparr>, None), [])"
    by (simp add: prod_eq_iff NewSource_result NewSource_calls refresh_error)
  have serves: "values c = None \<longrightarrow>
        String L c key = invoke (Defaults (options c)) (\<lambda>d. src_String d key)
        \<and> StringSlice L c key = invoke (Defaults (options c)) (\<lambda>d. src_StringSlice d key)
        \<and> Int' L c key = invoke (Defaults (options c)) (\<lambda>d. src_Int d key)
        \<and> Int8 L c key = invoke (Defaults (options c)) (\<lambda>d. src_Int8 d key)
        \<and> Int16 L c key = invoke (Defaults (options c)) (\<lambda>d. src_Int16 d key)
        \<and> Int32 L c key = invoke (Defaults (options c)) (\<lambda>d. src_Int32 d key)
        \<and> Int64 L c key = invoke (Defaults (options c)) (\<lambda>d. src_Int64 d key)
        \<and> Uint L c key = invoke (Defaults (options c)) (\<lambda>d. src_Uint d key)
        \<and> Uint8 L c key = invoke (Defaults (options c)) (\<lambda>d. src_Uint8 d key)
        \<and> Uint16 L c key = invoke (Defaults (options c)) (\<lambda>d. src_Uint16 d key)
        \<and> Uint32 L c key = invoke (Defaults (options c)) (\<lambda>d. src_Uint32 d key)
        \<and> Uint64 L c key = invoke (Defaults (options c)) (\<lambda>d. src_Uint64 d key)
        \<and> Float32 L c key = invoke (Defaults (options c)) (\<lambda>d. src_Float32 d key)
        \<and> Float64 L c key = invoke (Defaults (options c)) (\<lambda>d. src_Float64 d key)
        \<and> Bool L c key = invoke (Defaults (options c)) (\<lambda>d. src_Bool d key)
        \<and> Duration L c key = invoke (Defaults (options c)) (\<lambda>d. src_Duration d key)
        \<and> Time L c key = invoke (Defaults (options c)) (\<lambda>d. src_Time d key)"
  proof
    assume "values c = None"
    then have absent: "map_index (values c) (Qualify L (Namespace (options c)) key) = None"
      by (rule unloaded_absent)
    show "String L c key = invoke (Defaults (options c)) (\<lambda>d. src_String d key)
        \<and> StringSlice L c key = invoke (Defaults (options c)) (\<lambda>d. src_StringSlice d key)
        \<and> Int' L c key = invoke (Defaults (options c)) (\<lambda>d. src_Int d key)
        \<and> Int8 L c key = invoke (Defaults (options c)) (\<lambda>d. src_Int8 d key)
        \<and> Int16 L c key = invoke (Defaults (options c)) (\<lambda>d. src_Int16 d key)
        \<and> Int32 L c key = invoke (Defaults (options c)) (\<lambda>d. src_Int32 d key)
        \<and> Int64 L c key = invoke (Defaults (options c)) (\<lambda>d. src_Int64 d key)
        \<and> Uint L c key = invoke (Defaults (options c)) (\<lambda>d. src_Uint d key)
        \<and> Uint8 L c key = invoke (Defaults (options c)) (\<lambda>d. src_Uint8 d key)
        \<and> Uint16 L c key = invoke (Defaults (options c)) (\<lambda>d. src_Uint16 d key)
        \<and> Uint32 L c key = invoke (Defaults (options c)) (\<lambda>d. src_Uint32 d key)
        \<and> Uint64 L c key = invoke (Defaults (options c)) (\<lambda>d. src_Uint64 d key)
        \<and> Float32 L c key = invoke (Defaults (options c)) (\<lambda>d. src_Float32 d key)
        \<and> Float64 L c key = invoke (Defaults (options c)) (\<lambda>d. src_Float64 d key)
        \<and> Bool L c key = invoke (Defaults (options c)) (\<lambda>d. src_Bool d key)
        \<and> Duration L c key = invoke (Defaults (options c)) (\<lambda>d. src_Duration d key)
        \<and> Time L c key = invoke (Defaults (options c)) (\<lambda>d. src_Time d key)"
      by (simp only: String_absent [OF absent] StringSlice_absent [OF absent]
          Int_absent [OF absent] Int8_absent [OF absent] Int16_absent [OF absent]
          Int32_absent [OF absent] Int64_absent [OF absent] Uint_absent [OF absent]
          Uint8_absent [OF absent] Uint16_absent [OF absent] Uint32_absent [OF absent]
          Uint64_absent [OF absent] Float32_absent [OF absent] Float64_absent [OF absent]
          Bool_absent [OF absent] Duration_absent [OF absent] Time_absent [OF absent]
          simp_thms)
  qed
  show ?thesis
    using fails succeeds unreachable serves by blast
qed

theorem NewSource_fails_only_on_bad_options_witness:
  "fst (NewSource sample_library [] (Inr (store_pairs, \<lparr>LastIndex = 5\<rparr>)))
     = ((None :: (64, nat, nat, unit) consulSource option),
        Some (errors_New ''consul source: missing context option''))
   \<and> fst (NewSource sample_library [configify_Context (Ctx 0)]
        (Inr (store_pairs, \<lparr>LastIndex = 5\<rparr>)))
     = ((None :: (64, nat, nat, unit) consulSource option),
        Some (errors_New ''consul source: missing address option''))
   \<and> fst (NewSource sample_library
        [configify_Context (Ctx 0), configify_Address ''ftp://moo.:random-junk-host:12938129381'']
        (Inr (store_pairs, \<lparr>LastIndex = 5\<rparr>)))
     = ((None :: (64, nat, nat, unit) consulSource option),
        Some (errors_Wrapf (errors_New ''Unknown protocol scheme: ftp'')
          ''consul source: connect error''))
   \<and> Context (apply sample_opts (default_Options sample_library)) \<noteq> None
   \<and> Address (apply sample_opts (default_Options sample_library)) \<noteq> ''''
   \<and> api_NewClient sample_library
        (toConsulConfig sample_library (apply sample_opts (default_Options sample_library)))
       = Inr (NewClient \<lparr>cfg_Address = ''127.0.0.1:8500'', HttpAuth = None\<rparr>)
   \<and> NewSource sample_library sample_opts (Inl (errors_New ''connection refused''))
       = ((Some sample_unloaded, None), [])
   \<and> values sample_unloaded = None
   \<and> String sample_library sample_unloaded ''HTTP_HOST'' = Inr ('''', False)
   \<and> Int16 sample_library sample_unloaded ''HTTP_PORT'' = Inr (0, False)"
proof -
  have applied: "apply sample_opts (default_Options sample_library) = sample_options"
    by (simp add: apply_def sample_opts_def default_Options_def sample_options_def
        configify_Context_def configify_Address_def configify_Namespace_def
        configify_NamespaceDelim_def sample_library_def)
  have has_ctx: "Context (apply sample_opts (default_Options sample_library)) \<noteq> None"
    and address: "Address (apply sample_opts (default_Options sample_library)) \<noteq> ''''"
    by (simp_all add: applied sample_options_def)
  have connects:
    "api_NewClient sample_library
        (toConsulConfig sample_library (apply sample_opts (default_Options sample_library)))
       = Inr (NewClient \<lparr>cfg_Address = ''127.0.0.1:8500'', HttpAuth = None\<rparr>)"
    unfolding applied
    by (simp add: sample_options_def toConsulConfig_def sample_library_def
        sample_NewClient_def)
  have unloaded: "values sample_unloaded = None"
    by (simp add: sample_unloaded_def)
  have created_from_options:
    "NewSource sample_library sample_opts (Inl (errors_New ''connection refused''))
       = ((Some (\<lparr>client = NewClient \<lparr>cfg_Address = ''127.0.0.1:8500'', HttpAuth = None\<rparr>,
                 kv = KV (NewClient \<lparr>cfg_Address = ''127.0.0.1:8500'', HttpAuth = None\<rparr>),
                 options = apply sample_opts (default_Options sample_library),
                 massage = configify_Massage sample_library, values = None, lastIndex = 0,
                 watcher = None\<rparr> :: (64, nat, nat, unit) consulSource), None), [])"
    using NewSource_fails_only_on_bad_options
      [of sample_library sample_opts "Inl (errors_New ''connection refused'')"
        "NewClient \<lparr>cfg_Address = ''127.0.0.1:8500'', HttpAuth = None\<rparr>"
        "errors_New ''connection refused''" sample_unloaded "''HTTP_HOST''"]
      has_ctx address connects
    by blast
  have same:
    "\<lparr>client = NewClient \<lparr>cfg_Address = ''127.0.0.1:8500'', HttpAuth = None\<rparr>,
      kv = KV (NewClient \<lparr>cfg_Address = ''127.0.0.1:8500'', HttpAuth = None\<rparr>),
      options = apply sample_opts (default_Options sample_library),
      massage = configify_Massage sample_library, values = None, lastIndex = 0,
      watcher = None\<rparr> = (sample_unloaded :: (64, nat, nat, unit) consulSource)"
    unfolding applied by (simp add: sample_unloaded_def sample_library_def)
  have created:
    "NewSource sample_library sample_opts (Inl (errors_New ''connection refused''))
       = ((Some sample_unloaded, None), [])"
    using created_from_options by (simp only: same)
  have host:
    "String sample_library sample_unloaded ''HTTP_HOST''
       = invoke (Defaults (options sample_unloaded)) (\<lambda>d. src_String d ''HTTP_HOST'')"
    using NewSource_fails_only_on_bad_options
      [of sample_library sample_opts "Inl (errors_New ''connection refused'')"
        "NewClient \<lparr>cfg_Address = ''127.0.0.1:8500'', HttpAuth = None\<rparr>"
        "errors_New ''connection refused''" sample_unloaded "''HTTP_HOST''"]
      unloaded
    by blast
  have port:
    "Int16 sample_library sample_unloaded ''HTTP_PORT''
       = invoke (Defaults (options sample_unloaded)) (\<lambda>d. src_Int16 d ''HTTP_PORT'')"
    using NewSource_fails_only_on_bad_options
      [of sample_library sample_opts "Inl (errors_New ''connection refused'')"
        "NewClient \<lparr>cfg_Address = ''127.0.0.1:8500'', HttpAuth = None\<rparr>"
        "errors_New ''connection refused''" sample_unloaded "''HTTP_PORT''"]
      unloaded
    by blast
  have serves:
    "String sample_library sample_unloaded ''HTTP_HOST'' = Inr ('''', False)
     \<and> Int16 sample_library sample_unloaded ''HTTP_PORT'' = Inr (0, False)"
    unfolding host port
    by (simp add: invoke_def sample_unloaded_def sample_options_def sample_Empty_def)
  have rejected:
    "fst (NewSource sample_library [] (Inr (store_pairs, \<lparr>LastIndex = 5\<rparr>)))
       = ((None :: (64, nat, nat, unit) consulSource option),
          Some (errors_New ''consul source: missing context option''))"
    "fst (NewSource sample_library [configify_Context (Ctx 0)]
          (Inr (store_pairs, \<lparr>LastIndex = 5\<rparr>)))
       = ((None :: (64, nat, nat, unit) consulSource option),
          Some (errors_New ''consul source: missing address option''))"
    "fst (NewSource sample_library
          [configify_Context (Ctx 0), configify_Address ''ftp://moo.:random-junk-host:12938129381'']
          (Inr (store_pairs, \<lparr>LastIndex = 5\<rparr>)))
       = ((None :: (64, nat, nat, unit) consulSource option),
          Some (errors_Wrapf (errors_New ''Unknown protocol scheme: ftp'')
            ''consul source: connect error''))"
    by (simp_all add: NewSource_result apply_def default_Options_def configify_Context_def
        configify_Address_def toConsulConfig_def sample_library_def sample_NewClient_def)
  show ?thesis
    using rejected has_ctx address connects created unloaded serves by simp
qed

end
